theory Spec2Isabelle
  imports Complex_Main
begin

section \<open>Values at the boundary of the route handlers\<close>

text \<open>
  The four route handlers of the media library (\<^verbatim>\<open>POST /api/video-upload\<close>,
  \<^verbatim>\<open>POST /api/image-upload\<close>, \<^verbatim>\<open>DELETE /api/video/[id]\<close>,
  \<^verbatim>\<open>DELETE /api/image/[id]\<close>) are embedded as functions from a request, the
  answers of the outside world and the state of the store to a response and the new
  state.  JavaScript strings are modelled as \<^typ>\<open>string\<close>, one \<^typ>\<open>char\<close> per code
  unit below 256; sizes are natural numbers, as \<^verbatim>\<open>File.size\<close> is.
\<close>

text \<open>
  \<^verbatim>\<open>String.prototype.trim\<close>: strips white space and line terminators at both ends.
  Below 256 these are TAB, LF, VT, FF, CR, SPACE and NBSP.
\<close>

definition is_ws :: "char \<Rightarrow> bool" where
  "is_ws c = (c \<in> set [CHR 0x09, CHR 0x0A, CHR 0x0B, CHR 0x0C, CHR 0x0D, CHR 0x20, CHR 0xA0])"

definition trim :: "string \<Rightarrow> string" where
  "trim s = rev (dropWhile is_ws (rev (dropWhile is_ws s)))"

text \<open>The decimal rendering of a number inside a template literal.\<close>

fun decimal :: "nat \<Rightarrow> string" where
  "decimal n =
     (if n < 10 then [char_of (48 + n)]
      else decimal (n div 10) @ [char_of (48 + n mod 10)])"

declare decimal.simps [simp del]

text \<open>
  The \<^verbatim>\<open>File\<close> taken from the form data.  Its bytes go to Cloudinary unchanged and
  Cloudinary's answer is an input of the model, so only the fields the handlers read are
  kept.
\<close>

record File =
  file_name :: string
  file_type :: string
  file_size :: nat

text \<open>
  What a handler reads from the request: the result of \<^verbatim>\<open>auth()\<close> and the three
  form fields; \<^const>\<open>None\<close> is JavaScript's \<^verbatim>\<open>null\<close>.
\<close>

record upload_request =
  auth_userId :: "string option"
  form_file :: "File option"
  form_title :: "string option"
  form_description :: "string option"

record delete_request =
  del_userId :: "string option"
  param_id :: string

datatype resource_type = video | image

text \<open>
  The fields read from Cloudinary's upload result; \<^verbatim>\<open>bytes\<close> and
  \<^verbatim>\<open>duration\<close> may be absent from it.
\<close>

record upload_result =
  public_id :: string
  secure_url :: string
  bytes :: "nat option"
  result_duration :: "real option"

text \<open>
  A thrown value, with the properties the \<^verbatim>\<open>catch\<close> blocks inspect:
  \<^verbatim>\<open>http_code\<close> (Cloudinary), \<^verbatim>\<open>code\<close> (Prisma) and \<^verbatim>\<open>message\<close>.
\<close>

record js_error =
  http_code :: "nat option"
  code :: "string option"
  message :: string

text \<open>
  The answers of the outside world during one request: \<^verbatim>\<open>Date.now()\<close>, the random
  suffix, what \<^verbatim>\<open>upload_stream\<close> hands to its callback, whether \<^verbatim>\<open>destroy\<close>
  rejects, and the identifier and timestamp the store gives to a new row.
\<close>

record env =
  now :: nat
  randomString :: string
  upload_outcome :: "js_error + upload_result"
  destroy_outcome :: "js_error option"
  new_id :: string
  db_now :: nat

section \<open>The store\<close>

text \<open>
  The tables \<^verbatim>\<open>images\<close> and \<^verbatim>\<open>videos\<close> of the migrations.  A video row has
  the columns of an image row and two more.  Every column but \<^verbatim>\<open>description\<close> is
  \<^verbatim>\<open>NOT NULL\<close>; \<^verbatim>\<open>id\<close> is the primary key and \<^verbatim>\<open>publicId\<close> is unique.
\<close>

record Image =
  id' :: string
  title :: string
  description :: "string option"
  publicId :: string
  userId :: string
  originalSize :: nat
  createdAt :: nat
  updatedAt :: nat

record Video = Image +
  compressedSize :: nat
  duration :: real

text \<open>
  The \<^verbatim>\<open>data\<close> object given to \<^verbatim>\<open>create\<close>.  \<^const>\<open>None\<close> in
  \<open>data_userId\<close> means that the object has no \<^verbatim>\<open>userId\<close> key.
\<close>

record image_data =
  data_title :: string
  data_description :: "string option"
  data_publicId :: string
  data_userId :: "string option"
  data_originalSize :: nat

record video_data = image_data +
  data_compressedSize :: nat
  data_duration :: real

text \<open>
  Calls that leave the process, in the order they are made: the log is ghost state that
  lets a theorem say whether and when Cloudinary or a table was written.
\<close>

datatype call =
    CloudinaryUpload resource_type string
  | CloudinaryDestroy resource_type string
  | PrismaCreate resource_type
  | PrismaDelete resource_type string

record world =
  videos :: "Video list"
  images :: "Image list"
  calls :: "call list"

definition trace_of :: "world \<Rightarrow> world \<Rightarrow> call list" where
  "trace_of w w' = drop (length (calls w)) (calls w')"

text \<open>
  The error of a \<^verbatim>\<open>create\<close> whose data lacks a required column: Prisma rejects
  the argument before any query is sent, with an error that has no \<^verbatim>\<open>code\<close>.
\<close>

definition missing_argument :: js_error where
  "missing_argument = \<lparr>http_code = None, code = None, message = ''Argument `userId` is missing.''\<rparr>"

text \<open>The error of a write that breaks a unique index (Prisma's P2002).\<close>

definition unique_violation :: js_error where
  "unique_violation = \<lparr>http_code = None, code = Some ''P2002'',
     message = ''Unique constraint failed''\<rparr>"

text \<open>The error of a \<^verbatim>\<open>delete\<close> that finds no row (Prisma's P2025).\<close>

definition record_not_found :: js_error where
  "record_not_found = \<lparr>http_code = None, code = Some ''P2025'',
     message = ''Record to delete does not exist.''\<rparr>"

definition collides :: "string \<Rightarrow> string \<Rightarrow> 'a Image_scheme list \<Rightarrow> bool" where
  "collides i p table = (i \<in> set (map id' table) \<or> p \<in> set (map publicId table))"

definition prisma_image_create ::
  "env \<Rightarrow> image_data \<Rightarrow> world \<Rightarrow> (js_error + Image) \<times> world" where
  "prisma_image_create e d w =
     (let w1 = w\<lparr>calls := calls w @ [PrismaCreate image]\<rparr> in
      case data_userId d of
        None \<Rightarrow> (Inl missing_argument, w1)
      | Some u \<Rightarrow>
          if collides (new_id e) (data_publicId d) (images w) then (Inl unique_violation, w1)
          else
            let row = \<lparr>id' = new_id e, title = data_title d,
                       description = data_description d, publicId = data_publicId d,
                       userId = u, originalSize = data_originalSize d,
                       createdAt = db_now e, updatedAt = db_now e\<rparr>
            in (Inr row, w1\<lparr>images := images w @ [row]\<rparr>))"

definition prisma_video_create ::
  "env \<Rightarrow> video_data \<Rightarrow> world \<Rightarrow> (js_error + Video) \<times> world" where
  "prisma_video_create e d w =
     (let w1 = w\<lparr>calls := calls w @ [PrismaCreate video]\<rparr> in
      case data_userId d of
        None \<Rightarrow> (Inl missing_argument, w1)
      | Some u \<Rightarrow>
          if collides (new_id e) (data_publicId d) (videos w) then (Inl unique_violation, w1)
          else
            let row = \<lparr>id' = new_id e, title = data_title d,
                       description = data_description d, publicId = data_publicId d,
                       userId = u, originalSize = data_originalSize d,
                       createdAt = db_now e, updatedAt = db_now e,
                       compressedSize = data_compressedSize d,
                       duration = data_duration d\<rparr>
            in (Inr row, w1\<lparr>videos := videos w @ [row]\<rparr>))"

definition findUnique :: "string \<Rightarrow> 'a Image_scheme list \<Rightarrow> 'a Image_scheme option" where
  "findUnique i table = find (\<lambda>r. id' r = i) table"

definition delete_row :: "string \<Rightarrow> 'a Image_scheme list \<Rightarrow> 'a Image_scheme list" where
  "delete_row i table = filter (\<lambda>r. id' r \<noteq> i) table"

definition prisma_image_delete :: "string \<Rightarrow> world \<Rightarrow> js_error option \<times> world" where
  "prisma_image_delete i w =
     (let w1 = w\<lparr>calls := calls w @ [PrismaDelete image i]\<rparr> in
      if findUnique i (images w) = None then (Some record_not_found, w1)
      else (None, w1\<lparr>images := delete_row i (images w)\<rparr>))"

definition prisma_video_delete :: "string \<Rightarrow> world \<Rightarrow> js_error option \<times> world" where
  "prisma_video_delete i w =
     (let w1 = w\<lparr>calls := calls w @ [PrismaDelete video i]\<rparr> in
      if findUnique i (videos w) = None then (Some record_not_found, w1)
      else (None, w1\<lparr>videos := delete_row i (videos w)\<rparr>))"

text \<open>
  Modelled from the spec: the listing routes \<^verbatim>\<open>GET /api/video\<close> and
  \<^verbatim>\<open>GET /api/image\<close> are called by the dashboard but are not among the source
  files.  The spec's \<^verbatim>\<open>listByOwner(ownerId, kind)\<close> returns the records of that
  owner, ordered by \<^verbatim>\<open>createdAt\<close> descending.
\<close>

definition listByOwner :: "string \<Rightarrow> 'a Image_scheme list \<Rightarrow> 'a Image_scheme list" where
  "listByOwner ownerId table =
     rev (sort_key createdAt (filter (\<lambda>r. userId r = ownerId) table))"

section \<open>Responses\<close>

text \<open>
  The bodies of the error responses, one constructor per message.  The messages that
  quote the request keep what they quote: the received type, the received size (printed
  by the source in megabytes) and Cloudinary's message.
\<close>

datatype error_body =
    Unauthorized
  | NoFileProvided
  | TitleRequired
  | InvalidFileFormat string
  | FileSizeExceeds nat
  | CloudinaryUploadFailed string
  | DatabaseError
  | InternalServerError
  | NotFound
  | Forbidden
  | DeleteFailed

datatype 'a response = Failure nat error_body | Success nat 'a

record image_response =
  res_id :: string
  res_publicId :: string
  res_title :: string
  res_description :: "string option"
  res_secureUrl :: string
  res_originalSize :: nat
  res_createdAt :: nat

record video_response = image_response +
  res_compressedSize :: nat
  res_duration :: real

text \<open>
  The \<^verbatim>\<open>catch\<close> block of both upload handlers: a truthy \<^verbatim>\<open>http_code\<close> becomes
  the status, a \<^verbatim>\<open>code\<close> that starts with P is a database error, anything else is
  a generic 500.
\<close>

definition catch_upload :: "js_error \<Rightarrow> 'a response" where
  "catch_upload err =
     (case http_code err of
        Some c \<Rightarrow>
          if c \<noteq> 0 then Failure c (CloudinaryUploadFailed (message err))
          else (case code err of
                  Some k \<Rightarrow> if k \<noteq> [] \<and> take 1 k = ''P'' then Failure 500 DatabaseError
                            else Failure 500 InternalServerError
                | None \<Rightarrow> Failure 500 InternalServerError)
      | None \<Rightarrow>
          (case code err of
             Some k \<Rightarrow> if k \<noteq> [] \<and> take 1 k = ''P'' then Failure 500 DatabaseError
                       else Failure 500 InternalServerError
           | None \<Rightarrow> Failure 500 InternalServerError))"

section \<open>The upload handlers\<close>

definition MAX_FILE_SIZE_video :: nat where
  "MAX_FILE_SIZE_video = 20 * 1024 * 1024"

definition ALLOWED_FORMATS_video :: "string list" where
  "ALLOWED_FORMATS_video =
     [''video/mp4'', ''video/mpeg'', ''video/quicktime'', ''video/x-msvideo'',
      ''video/webm'', ''video/x-matroska'']"

definition MAX_FILE_SIZE_image :: nat where
  "MAX_FILE_SIZE_image = 10 * 1024 * 1024"

definition ALLOWED_FORMATS_image :: "string list" where
  "ALLOWED_FORMATS_image = [''image/jpeg'', ''image/png'', ''image/webp'']"

text \<open>\<^verbatim>\<open>!title || title.trim().length === 0\<close>\<close>

definition title_missing :: "string option \<Rightarrow> bool" where
  "title_missing t = (case t of None \<Rightarrow> True | Some s \<Rightarrow> s = [] \<or> length (trim s) = 0)"

text \<open>\<^verbatim>\<open>description?.trim() || null\<close>\<close>

definition description_or_null :: "string option \<Rightarrow> string option" where
  "description_or_null d =
     (case d of None \<Rightarrow> None | Some s \<Rightarrow> if trim s = [] then None else Some (trim s))"

text \<open>\<^verbatim>\<open>uploadedBytes || file.size\<close>\<close>

definition bytes_or :: "nat option \<Rightarrow> nat \<Rightarrow> nat" where
  "bytes_or b n = (case b of None \<Rightarrow> n | Some k \<Rightarrow> if k = 0 then n else k)"

text \<open>\<^verbatim>\<open>duration || 0\<close>\<close>

definition duration_or_0 :: "real option \<Rightarrow> real" where
  "duration_or_0 d = (case d of None \<Rightarrow> 0 | Some x \<Rightarrow> if x = 0 then 0 else x)"

text \<open>The \<^verbatim>\<open>data\<close> object of \<^verbatim>\<open>prisma.video.create\<close>.\<close>

definition video_create_data ::
  "string \<Rightarrow> string \<Rightarrow> string option \<Rightarrow> File \<Rightarrow> upload_result \<Rightarrow> video_data" where
  "video_create_data uid t d f r =
     \<lparr>data_title = trim t,
      data_description = description_or_null d,
      data_publicId = public_id r,
      data_userId = Some uid,
      data_originalSize = file_size f,
      data_compressedSize = bytes_or (bytes r) (file_size f),
      data_duration = duration_or_0 (result_duration r)\<rparr>"

text \<open>
  The \<^verbatim>\<open>data\<close> object of \<^verbatim>\<open>prisma.image.create\<close>: it has the keys
  \<^verbatim>\<open>title\<close>, \<^verbatim>\<open>description\<close>, \<^verbatim>\<open>publicId\<close> and \<^verbatim>\<open>originalSize\<close>, and no
  \<^verbatim>\<open>userId\<close>.
\<close>

definition image_create_data ::
  "string \<Rightarrow> string option \<Rightarrow> File \<Rightarrow> upload_result \<Rightarrow> image_data" where
  "image_create_data t d f r =
     \<lparr>data_title = trim t,
      data_description = description_or_null d,
      data_publicId = public_id r,
      data_userId = None,
      data_originalSize = file_size f\<rparr>"

definition POST_video ::
  "env \<Rightarrow> upload_request \<Rightarrow> world \<Rightarrow> video_response response \<times> world" where
  "POST_video e req w =
     (case auth_userId req of
        None \<Rightarrow> (Failure 401 Unauthorized, w)
      | Some uid \<Rightarrow>
          if uid = [] then (Failure 401 Unauthorized, w)
          else
            (case form_file req of
               None \<Rightarrow> (Failure 400 NoFileProvided, w)
             | Some f \<Rightarrow>
                 if title_missing (form_title req) then (Failure 400 TitleRequired, w)
                 else if file_type f \<notin> set ALLOWED_FORMATS_video
                   then (Failure 400 (InvalidFileFormat (file_type f)), w)
                 else if file_size f > MAX_FILE_SIZE_video
                   then (Failure 400 (FileSizeExceeds (file_size f)), w)
                 else
                   let pid = ''videos/'' @ uid @ ''/'' @ decimal (now e) @ ''-'' @ randomString e;
                       w1 = w\<lparr>calls := calls w @ [CloudinaryUpload video pid]\<rparr>
                   in
                     (case upload_outcome e of
                        Inl err \<Rightarrow> (catch_upload err, w1)
                      | Inr r \<Rightarrow>
                          (case prisma_video_create e
                                  (video_create_data uid (case form_title req of Some t \<Rightarrow> t | None \<Rightarrow> [])
                                     (form_description req) f r) w1 of
                             (Inl err, w2) \<Rightarrow> (catch_upload err, w2)
                           | (Inr v, w2) \<Rightarrow>
                               (Success 201
                                  \<lparr>res_id = id' v, res_publicId = publicId v,
                                   res_title = title v, res_description = description v,
                                   res_secureUrl = secure_url r,
                                   res_originalSize = originalSize v,
                                   res_createdAt = createdAt v,
                                   res_compressedSize = compressedSize v,
                                   res_duration = duration v\<rparr>, w2)))))"

definition POST_image ::
  "env \<Rightarrow> upload_request \<Rightarrow> world \<Rightarrow> image_response response \<times> world" where
  "POST_image e req w =
     (case auth_userId req of
        None \<Rightarrow> (Failure 401 Unauthorized, w)
      | Some uid \<Rightarrow>
          if uid = [] then (Failure 401 Unauthorized, w)
          else
            (case form_file req of
               None \<Rightarrow> (Failure 400 NoFileProvided, w)
             | Some f \<Rightarrow>
                 if title_missing (form_title req) then (Failure 400 TitleRequired, w)
                 else if file_type f \<notin> set ALLOWED_FORMATS_image
                   then (Failure 400 (InvalidFileFormat (file_type f)), w)
                 else if file_size f > MAX_FILE_SIZE_image
                   then (Failure 400 (FileSizeExceeds (file_size f)), w)
                 else
                   let pid = ''images/'' @ uid @ ''/'' @ decimal (now e) @ ''-'' @ randomString e;
                       w1 = w\<lparr>calls := calls w @ [CloudinaryUpload image pid]\<rparr>
                   in
                     (case upload_outcome e of
                        Inl err \<Rightarrow> (catch_upload err, w1)
                      | Inr r \<Rightarrow>
                          (case prisma_image_create e
                                  (image_create_data (case form_title req of Some t \<Rightarrow> t | None \<Rightarrow> [])
                                     (form_description req) f r) w1 of
                             (Inl err, w2) \<Rightarrow> (catch_upload err, w2)
                           | (Inr i, w2) \<Rightarrow>
                               (Success 201
                                  \<lparr>res_id = id' i, res_publicId = publicId i,
                                   res_title = title i, res_description = description i,
                                   res_secureUrl = secure_url r,
                                   res_originalSize = originalSize i,
                                   res_createdAt = createdAt i\<rparr>, w2)))))"

section \<open>The delete handlers\<close>

text \<open>
  The outer \<^verbatim>\<open>catch\<close> of the delete handlers answers 500 whatever was thrown.  The
  inner one, around \<^verbatim>\<open>destroy\<close>, only logs: after either outcome of
  \<^verbatim>\<open>destroy\<close> the handler goes on to the store with the same state.
\<close>

definition DELETE_video :: "env \<Rightarrow> delete_request \<Rightarrow> world \<Rightarrow> string response \<times> world" where
  "DELETE_video e req w =
     (case del_userId req of
        None \<Rightarrow> (Failure 401 Unauthorized, w)
      | Some uid \<Rightarrow>
          if uid = [] then (Failure 401 Unauthorized, w)
          else
            (case findUnique (param_id req) (videos w) of
               None \<Rightarrow> (Failure 404 NotFound, w)
             | Some v \<Rightarrow>
                 if userId v \<noteq> uid then (Failure 403 Forbidden, w)
                 else
                   let w1 = w\<lparr>calls := calls w @ [CloudinaryDestroy video (publicId v)]\<rparr>;
                       w2 = (case destroy_outcome e of None \<Rightarrow> w1 | Some err \<Rightarrow> w1)
                   in
                     (case prisma_video_delete (param_id req) w2 of
                        (Some err, w3) \<Rightarrow> (Failure 500 DeleteFailed, w3)
                      | (None, w3) \<Rightarrow> (Success 200 ''Video deleted successfully.'', w3))))"

definition DELETE_image :: "env \<Rightarrow> delete_request \<Rightarrow> world \<Rightarrow> string response \<times> world" where
  "DELETE_image e req w =
     (case del_userId req of
        None \<Rightarrow> (Failure 401 Unauthorized, w)
      | Some uid \<Rightarrow>
          if uid = [] then (Failure 401 Unauthorized, w)
          else
            (case findUnique (param_id req) (images w) of
               None \<Rightarrow> (Failure 404 NotFound, w)
             | Some i \<Rightarrow>
                 if userId i \<noteq> uid then (Failure 403 Forbidden, w)
                 else
                   let w1 = w\<lparr>calls := calls w @ [CloudinaryDestroy image (publicId i)]\<rparr>;
                       w2 = (case destroy_outcome e of None \<Rightarrow> w1 | Some err \<Rightarrow> w1)
                   in
                     (case prisma_image_delete (param_id req) w2 of
                        (Some err, w3) \<Rightarrow> (Failure 500 DeleteFailed, w3)
                      | (None, w3) \<Rightarrow> (Success 200 ''Image deleted successfully.'', w3))))"

section \<open>The order of the checks, in the words of the specification\<close>

text \<open>
  The specification numbers the validation steps of an upload: missing file, missing
  title (absent, or empty after trimming), invalid format (the declared type is not in
  the allowed set of the kind), too large (the size exceeds the limit of the kind).  A
  request is answered with the error of the first step that fails.
\<close>

datatype check = MissingFile | MissingTitle | InvalidFormat | TooLarge

definition validation_order :: "check list" where
  "validation_order = [MissingFile, MissingTitle, InvalidFormat, TooLarge]"

fun check_fails :: "string list \<Rightarrow> nat \<Rightarrow> upload_request \<Rightarrow> check \<Rightarrow> bool" where
  "check_fails allowed limit req MissingFile = (form_file req = None)"
| "check_fails allowed limit req MissingTitle =
     (case form_title req of None \<Rightarrow> True | Some t \<Rightarrow> trim t = [])"
| "check_fails allowed limit req InvalidFormat =
     (case form_file req of None \<Rightarrow> False | Some f \<Rightarrow> file_type f \<notin> set allowed)"
| "check_fails allowed limit req TooLarge =
     (case form_file req of None \<Rightarrow> False | Some f \<Rightarrow> limit < file_size f)"

definition first_failing :: "string list \<Rightarrow> nat \<Rightarrow> upload_request \<Rightarrow> check option" where
  "first_failing allowed limit req = find (check_fails allowed limit req) validation_order"

text \<open>The validation step a response reports, if it is one of the four 400 answers.\<close>

fun reported_check :: "'a response \<Rightarrow> check option" where
  "reported_check (Failure s NoFileProvided) = (if s = 400 then Some MissingFile else None)"
| "reported_check (Failure s TitleRequired) = (if s = 400 then Some MissingTitle else None)"
| "reported_check (Failure s (InvalidFileFormat t)) = (if s = 400 then Some InvalidFormat else None)"
| "reported_check (Failure s (FileSizeExceeds n)) = (if s = 400 then Some TooLarge else None)"
| "reported_check _ = None"

section \<open>Sample requests\<close>

definition png_file :: File where
  "png_file = \<lparr>file_name = ''cat.png'', file_type = ''image/png'', file_size = 1000\<rparr>"

definition gif_file :: File where
  "gif_file = \<lparr>file_name = ''cat.gif'', file_type = ''image/gif'', file_size = 1000\<rparr>"

definition mp4_file :: "nat \<Rightarrow> File" where
  "mp4_file n = \<lparr>file_name = ''demo.mp4'', file_type = ''video/mp4'', file_size = n\<rparr>"

definition upload_by_u1 :: "File \<Rightarrow> string \<Rightarrow> upload_request" where
  "upload_by_u1 f t =
     \<lparr>auth_userId = Some ''u1'', form_file = Some f, form_title = Some t,
      form_description = Some ''  ''\<rparr>"

definition cloud_ok :: "string \<Rightarrow> nat option \<Rightarrow> real option \<Rightarrow> env" where
  "cloud_ok p b d =
     \<lparr>now = 123, randomString = ''abc'',
      upload_outcome = Inr \<lparr>public_id = p, secure_url = ''https://cdn/x'', bytes = b,
                            result_duration = d\<rparr>,
      destroy_outcome = None, new_id = ''id1'', db_now = 7\<rparr>"

definition cloud_down :: env where
  "cloud_down =
     \<lparr>now = 123, randomString = ''abc'',
      upload_outcome = Inl \<lparr>http_code = Some 503, code = None, message = ''unavailable''\<rparr>,
      destroy_outcome = Some \<lparr>http_code = Some 503, code = None, message = ''unavailable''\<rparr>,
      new_id = ''id1'', db_now = 7\<rparr>"

definition empty_world :: world where
  "empty_world = \<lparr>videos = [], images = [], calls = []\<rparr>"

definition row_of :: "string \<Rightarrow> string \<Rightarrow> nat \<Rightarrow> Image" where
  "row_of i u t =
     \<lparr>id' = i, title = ''t'', description = None, publicId = ''images/'' @ u @ ''/'' @ i,
      userId = u, originalSize = 10, createdAt = t, updatedAt = t\<rparr>"

definition video_row_of :: "string \<Rightarrow> string \<Rightarrow> nat \<Rightarrow> Video" where
  "video_row_of i u t =
     \<lparr>id' = i, title = ''t'', description = None, publicId = ''videos/'' @ u @ ''/'' @ i,
      userId = u, originalSize = 10, createdAt = t, updatedAt = t,
      compressedSize = 5, duration = 1\<rparr>"

definition u1_world :: world where
  "u1_world =
     \<lparr>videos = [video_row_of ''v1'' ''u1'' 1, video_row_of ''v2'' ''u2'' 2,
                video_row_of ''v3'' ''u1'' 3],
      images = [row_of ''i1'' ''u1'' 1, row_of ''i2'' ''u2'' 2, row_of ''i3'' ''u1'' 3],
      calls = []\<rparr>"

section \<open>Properties\<close>

subsection \<open>The branches of the upload handlers\<close>

lemma catch_upload_Failure: "\<exists>s b. (catch_upload err :: 'a response) = Failure s b"
  by (simp add: catch_upload_def split: option.split)

lemma reported_check_catch: "reported_check (catch_upload err :: 'a response) = None"
  by (simp add: catch_upload_def split: option.split)

lemma catch_missing_argument:
  "(catch_upload missing_argument :: 'a response) = Failure 500 InternalServerError"
  by (simp add: catch_upload_def missing_argument_def)

lemma catch_unique_violation:
  "(catch_upload unique_violation :: 'a response) = Failure 500 DatabaseError"
  by (simp add: catch_upload_def unique_violation_def)

lemma title_missing_iff:
  "title_missing t = (case t of None \<Rightarrow> True | Some s \<Rightarrow> trim s = [])"
  by (auto simp: title_missing_def trim_def split: option.split)

lemma upload_request_cases [case_names unauth nofile notitle badtype toolarge valid]:
  fixes req :: upload_request and allowed :: "string list" and limit :: nat
  obtains "auth_userId req = None \<or> auth_userId req = Some []"
  | uid where "auth_userId req = Some uid" "uid \<noteq> []" "form_file req = None"
  | uid f where "auth_userId req = Some uid" "uid \<noteq> []" "form_file req = Some f"
      "title_missing (form_title req)"
  | uid f t where "auth_userId req = Some uid" "uid \<noteq> []" "form_file req = Some f"
      "form_title req = Some t" "\<not> title_missing (form_title req)" "file_type f \<notin> set allowed"
  | uid f t where "auth_userId req = Some uid" "uid \<noteq> []" "form_file req = Some f"
      "form_title req = Some t" "\<not> title_missing (form_title req)" "file_type f \<in> set allowed"
      "limit < file_size f"
  | uid f t where "auth_userId req = Some uid" "uid \<noteq> []" "form_file req = Some f"
      "form_title req = Some t" "\<not> title_missing (form_title req)" "file_type f \<in> set allowed"
      "file_size f \<le> limit"
proof (cases "auth_userId req")
  case None
  then show ?thesis using that(1) by simp
next
  case (Some uid)
  note uid = this
  show ?thesis
  proof (cases "uid = []")
    case True
    with uid show ?thesis using that(1) by simp
  next
    case False
    note ne = this
    show ?thesis
    proof (cases "form_file req")
      case None
      with uid ne show ?thesis using that(2) by simp
    next
      case (Some f)
      note f = this
      show ?thesis
      proof (cases "title_missing (form_title req)")
        case True
        with uid ne f show ?thesis using that(3) by simp
      next
        case False
        then obtain t where t: "form_title req = Some t"
          by (cases "form_title req") (simp_all add: title_missing_def)
        show ?thesis
        proof (cases "file_type f \<in> set allowed")
          case False
          with uid ne f t \<open>\<not> title_missing (form_title req)\<close> show ?thesis using that(4) by simp
        next
          case True
          with uid ne f t \<open>\<not> title_missing (form_title req)\<close> show ?thesis
            using that(5) that(6) by (cases "limit < file_size f") simp_all
        qed
      qed
    qed
  qed
qed

lemma POST_video_unauth:
  "auth_userId req = None \<or> auth_userId req = Some [] \<Longrightarrow>
     POST_video e req w = (Failure 401 Unauthorized, w)"
  by (auto simp: POST_video_def)

lemma POST_image_unauth:
  "auth_userId req = None \<or> auth_userId req = Some [] \<Longrightarrow>
     POST_image e req w = (Failure 401 Unauthorized, w)"
  by (auto simp: POST_image_def)

lemma POST_video_nofile:
  "auth_userId req = Some uid \<Longrightarrow> uid \<noteq> [] \<Longrightarrow> form_file req = None \<Longrightarrow>
     POST_video e req w = (Failure 400 NoFileProvided, w)"
  by (simp add: POST_video_def)

lemma POST_image_nofile:
  "auth_userId req = Some uid \<Longrightarrow> uid \<noteq> [] \<Longrightarrow> form_file req = None \<Longrightarrow>
     POST_image e req w = (Failure 400 NoFileProvided, w)"
  by (simp add: POST_image_def)

lemma POST_video_notitle:
  "auth_userId req = Some uid \<Longrightarrow> uid \<noteq> [] \<Longrightarrow> form_file req = Some f \<Longrightarrow>
   title_missing (form_title req) \<Longrightarrow>
     POST_video e req w = (Failure 400 TitleRequired, w)"
  by (simp add: POST_video_def)

lemma POST_image_notitle:
  "auth_userId req = Some uid \<Longrightarrow> uid \<noteq> [] \<Longrightarrow> form_file req = Some f \<Longrightarrow>
   title_missing (form_title req) \<Longrightarrow>
     POST_image e req w = (Failure 400 TitleRequired, w)"
  by (simp add: POST_image_def)

lemma POST_video_badtype:
  "auth_userId req = Some uid \<Longrightarrow> uid \<noteq> [] \<Longrightarrow> form_file req = Some f \<Longrightarrow>
   \<not> title_missing (form_title req) \<Longrightarrow> file_type f \<notin> set ALLOWED_FORMATS_video \<Longrightarrow>
     POST_video e req w = (Failure 400 (InvalidFileFormat (file_type f)), w)"
  by (simp add: POST_video_def)

lemma POST_image_badtype:
  "auth_userId req = Some uid \<Longrightarrow> uid \<noteq> [] \<Longrightarrow> form_file req = Some f \<Longrightarrow>
   \<not> title_missing (form_title req) \<Longrightarrow> file_type f \<notin> set ALLOWED_FORMATS_image \<Longrightarrow>
     POST_image e req w = (Failure 400 (InvalidFileFormat (file_type f)), w)"
  by (simp add: POST_image_def)

lemma POST_video_toolarge:
  "auth_userId req = Some uid \<Longrightarrow> uid \<noteq> [] \<Longrightarrow> form_file req = Some f \<Longrightarrow>
   \<not> title_missing (form_title req) \<Longrightarrow> file_type f \<in> set ALLOWED_FORMATS_video \<Longrightarrow>
   MAX_FILE_SIZE_video < file_size f \<Longrightarrow>
     POST_video e req w = (Failure 400 (FileSizeExceeds (file_size f)), w)"
  by (simp add: POST_video_def)

lemma POST_image_toolarge:
  "auth_userId req = Some uid \<Longrightarrow> uid \<noteq> [] \<Longrightarrow> form_file req = Some f \<Longrightarrow>
   \<not> title_missing (form_title req) \<Longrightarrow> file_type f \<in> set ALLOWED_FORMATS_image \<Longrightarrow>
   MAX_FILE_SIZE_image < file_size f \<Longrightarrow>
     POST_image e req w = (Failure 400 (FileSizeExceeds (file_size f)), w)"
  by (simp add: POST_image_def)

lemma image_create_rejected:
  "prisma_image_create e (image_create_data t d f r) w =
     (Inl missing_argument, w\<lparr>calls := calls w @ [PrismaCreate image]\<rparr>)"
  by (simp add: prisma_image_create_def image_create_data_def)

lemma POST_image_valid:
  assumes "auth_userId req = Some uid" "uid \<noteq> []" "form_file req = Some f"
    and "\<not> title_missing (form_title req)"
    and "file_type f \<in> set ALLOWED_FORMATS_image" "file_size f \<le> MAX_FILE_SIZE_image"
  shows "POST_image e req w =
     (case upload_outcome e of
        Inl err \<Rightarrow> (catch_upload err,
           w\<lparr>calls := calls w @ [CloudinaryUpload image
               (''images/'' @ uid @ ''/'' @ decimal (now e) @ ''-'' @ randomString e)]\<rparr>)
      | Inr r \<Rightarrow> (Failure 500 InternalServerError,
           w\<lparr>calls := calls w @ [CloudinaryUpload image
               (''images/'' @ uid @ ''/'' @ decimal (now e) @ ''-'' @ randomString e),
               PrismaCreate image]\<rparr>))"
  using assms
  by (simp add: POST_image_def Let_def image_create_rejected catch_missing_argument
      split: sum.split)

lemma POST_video_valid:
  assumes "auth_userId req = Some uid" "uid \<noteq> []" "form_file req = Some f"
    and "form_title req = Some t" "\<not> title_missing (form_title req)"
    and "file_type f \<in> set ALLOWED_FORMATS_video" "file_size f \<le> MAX_FILE_SIZE_video"
  shows "POST_video e req w =
     (case upload_outcome e of
        Inl err \<Rightarrow> (catch_upload err,
           w\<lparr>calls := calls w @ [CloudinaryUpload video
               (''videos/'' @ uid @ ''/'' @ decimal (now e) @ ''-'' @ randomString e)]\<rparr>)
      | Inr r \<Rightarrow>
          if collides (new_id e) (public_id r) (videos w)
          then (Failure 500 DatabaseError,
             w\<lparr>calls := calls w @ [CloudinaryUpload video
               (''videos/'' @ uid @ ''/'' @ decimal (now e) @ ''-'' @ randomString e),
               PrismaCreate video]\<rparr>)
          else (Success 201
                  \<lparr>res_id = new_id e, res_publicId = public_id r, res_title = trim t,
                   res_description = description_or_null (form_description req),
                   res_secureUrl = secure_url r, res_originalSize = file_size f,
                   res_createdAt = db_now e,
                   res_compressedSize = bytes_or (bytes r) (file_size f),
                   res_duration = duration_or_0 (result_duration r)\<rparr>,
             w\<lparr>calls := calls w @ [CloudinaryUpload video
                 (''videos/'' @ uid @ ''/'' @ decimal (now e) @ ''-'' @ randomString e),
                 PrismaCreate video],
               videos := videos w @
                 [\<lparr>id' = new_id e, title = trim t,
                   description = description_or_null (form_description req),
                   publicId = public_id r, userId = uid, originalSize = file_size f,
                   createdAt = db_now e, updatedAt = db_now e,
                   compressedSize = bytes_or (bytes r) (file_size f),
                   duration = duration_or_0 (result_duration r)\<rparr>]\<rparr>))"
  using assms
  by (simp add: POST_video_def Let_def prisma_video_create_def video_create_data_def
      catch_unique_violation split: sum.split)

lemma first_failing_MissingFile:
  "form_file req = None \<Longrightarrow> first_failing allowed limit req = Some MissingFile"
  by (simp add: first_failing_def validation_order_def)

lemma first_failing_MissingTitle:
  "form_file req = Some f \<Longrightarrow> title_missing (form_title req) \<Longrightarrow>
     first_failing allowed limit req = Some MissingTitle"
  by (simp add: first_failing_def validation_order_def title_missing_iff)

lemma first_failing_InvalidFormat:
  "form_file req = Some f \<Longrightarrow> \<not> title_missing (form_title req) \<Longrightarrow>
   file_type f \<notin> set allowed \<Longrightarrow>
     first_failing allowed limit req = Some InvalidFormat"
  by (simp add: first_failing_def validation_order_def title_missing_iff)

lemma first_failing_TooLarge:
  "form_file req = Some f \<Longrightarrow> \<not> title_missing (form_title req) \<Longrightarrow>
   file_type f \<in> set allowed \<Longrightarrow> limit < file_size f \<Longrightarrow>
     first_failing allowed limit req = Some TooLarge"
  by (simp add: first_failing_def validation_order_def title_missing_iff)

lemma first_failing_None:
  "form_file req = Some f \<Longrightarrow> \<not> title_missing (form_title req) \<Longrightarrow>
   file_type f \<in> set allowed \<Longrightarrow> file_size f \<le> limit \<Longrightarrow>
     first_failing allowed limit req = None"
  by (simp add: first_failing_def validation_order_def title_missing_iff)

lemma reported_check_POST_image:
  assumes "auth_userId req = Some uid" "uid \<noteq> []"
  shows "reported_check (fst (POST_image e req w)) =
           first_failing ALLOWED_FORMATS_image MAX_FILE_SIZE_image req"
proof (cases rule: upload_request_cases [where req = req and allowed = ALLOWED_FORMATS_image and limit = MAX_FILE_SIZE_image])
  case unauth
  with assms show ?thesis by simp
next
  case (nofile u)
  then show ?thesis by (simp add: POST_image_nofile first_failing_MissingFile)
next
  case (notitle u f)
  then show ?thesis by (simp add: POST_image_notitle first_failing_MissingTitle)
next
  case (badtype u f t)
  then show ?thesis by (simp add: POST_image_badtype first_failing_InvalidFormat)
next
  case (toolarge u f t)
  then show ?thesis by (simp add: POST_image_toolarge first_failing_TooLarge)
next
  case (valid u f t)
  then show ?thesis
    by (simp add: POST_image_valid first_failing_None reported_check_catch split: sum.split)
qed

lemma reported_check_POST_video:
  assumes "auth_userId req = Some uid" "uid \<noteq> []"
  shows "reported_check (fst (POST_video e req w)) =
           first_failing ALLOWED_FORMATS_video MAX_FILE_SIZE_video req"
proof (cases rule: upload_request_cases [where req = req and allowed = ALLOWED_FORMATS_video and limit = MAX_FILE_SIZE_video])
  case unauth
  with assms show ?thesis by simp
next
  case (nofile u)
  then show ?thesis by (simp add: POST_video_nofile first_failing_MissingFile)
next
  case (notitle u f)
  then show ?thesis by (simp add: POST_video_notitle first_failing_MissingTitle)
next
  case (badtype u f t)
  then show ?thesis by (simp add: POST_video_badtype first_failing_InvalidFormat)
next
  case (toolarge u f t)
  then show ?thesis by (simp add: POST_video_toolarge first_failing_TooLarge)
next
  case (valid u f t)
  then show ?thesis
    by (simp add: POST_video_valid first_failing_None reported_check_catch split: sum.split)
qed

lemma rejected_POST_image_no_effect:
  assumes "reported_check (fst (POST_image e req w)) = Some c"
  shows "snd (POST_image e req w) = w"
proof (cases rule: upload_request_cases [where req = req and allowed = ALLOWED_FORMATS_image and limit = MAX_FILE_SIZE_image])
  case unauth
  then show ?thesis by (simp add: POST_image_unauth)
next
  case (nofile u)
  then show ?thesis by (simp add: POST_image_nofile)
next
  case (notitle u f)
  then show ?thesis by (simp add: POST_image_notitle)
next
  case (badtype u f t)
  then show ?thesis by (simp add: POST_image_badtype)
next
  case (toolarge u f t)
  then show ?thesis by (simp add: POST_image_toolarge)
next
  case (valid u f t)
  with assms show ?thesis
    by (simp add: POST_image_valid reported_check_catch split: sum.splits)
qed

lemma rejected_POST_video_no_effect:
  assumes "reported_check (fst (POST_video e req w)) = Some c"
  shows "snd (POST_video e req w) = w"
proof (cases rule: upload_request_cases [where req = req and allowed = ALLOWED_FORMATS_video and limit = MAX_FILE_SIZE_video])
  case unauth
  then show ?thesis by (simp add: POST_video_unauth)
next
  case (nofile u)
  then show ?thesis by (simp add: POST_video_nofile)
next
  case (notitle u f)
  then show ?thesis by (simp add: POST_video_notitle)
next
  case (badtype u f t)
  then show ?thesis by (simp add: POST_video_badtype)
next
  case (toolarge u f t)
  then show ?thesis by (simp add: POST_video_toolarge)
next
  case (valid u f t)
  with assms show ?thesis
    by (simp add: POST_video_valid reported_check_catch split: sum.splits if_splits)
qed

text \<open>
  C5.  For an authenticated caller, both upload handlers answer with the error of the
  first validation step that fails, in the order missing file, missing title, invalid
  format, too large; when no step fails the answer is none of these four errors.  A
  request rejected by a step leaves the store and the call log as they were.
\<close>

theorem validation_reports_first_failing_check:
  assumes "auth_userId req = Some uid" and "uid \<noteq> []"
  shows "reported_check (fst (POST_video e req w)) =
           first_failing ALLOWED_FORMATS_video MAX_FILE_SIZE_video req
       \<and> reported_check (fst (POST_image e req w)) =
           first_failing ALLOWED_FORMATS_image MAX_FILE_SIZE_image req
       \<and> (first_failing ALLOWED_FORMATS_video MAX_FILE_SIZE_video req \<noteq> None \<longrightarrow>
            snd (POST_video e req w) = w)
       \<and> (first_failing ALLOWED_FORMATS_image MAX_FILE_SIZE_image req \<noteq> None \<longrightarrow>
            snd (POST_image e req w) = w)"
  using assms reported_check_POST_video [of req uid e w] reported_check_POST_image [of req uid e w]
    rejected_POST_video_no_effect [of e req w] rejected_POST_image_no_effect [of e req w]
  by auto

theorem validation_reports_first_failing_check_witness:
  "fst (POST_image cloud_down (upload_by_u1 gif_file ''  '') empty_world) = Failure 400 TitleRequired
   \<and> first_failing ALLOWED_FORMATS_image MAX_FILE_SIZE_image (upload_by_u1 gif_file ''  '')
       = Some MissingTitle
   \<and> check_fails ALLOWED_FORMATS_image MAX_FILE_SIZE_image (upload_by_u1 gif_file ''  '') InvalidFormat
   \<and> snd (POST_image cloud_down (upload_by_u1 gif_file ''  '') empty_world) = empty_world"
proof -
  have a: "auth_userId (upload_by_u1 gif_file ''  '') = Some ''u1''" and b: "''u1'' \<noteq> []"
    by (simp_all add: upload_by_u1_def)
  have ff: "first_failing ALLOWED_FORMATS_image MAX_FILE_SIZE_image (upload_by_u1 gif_file ''  '')
       = Some MissingTitle"
    by (simp add: first_failing_def validation_order_def upload_by_u1_def trim_def is_ws_def)
  have r: "fst (POST_image cloud_down (upload_by_u1 gif_file ''  '') empty_world)
       = Failure 400 TitleRequired"
    by (simp add: POST_image_def upload_by_u1_def title_missing_def trim_def is_ws_def)
  have c: "check_fails ALLOWED_FORMATS_image MAX_FILE_SIZE_image (upload_by_u1 gif_file ''  '') InvalidFormat"
    by (simp add: upload_by_u1_def gif_file_def ALLOWED_FORMATS_image_def)
  from validation_reports_first_failing_check [OF a b, of cloud_down empty_world] ff r c
  show ?thesis by simp
qed

lemma first_failing_after_title:
  "form_file req = Some f \<Longrightarrow> \<not> title_missing (form_title req) \<Longrightarrow>
     first_failing allowed limit req =
       (if file_type f \<notin> set allowed then Some InvalidFormat
        else if limit < file_size f then Some TooLarge else None)"
  by (simp add: first_failing_def validation_order_def title_missing_iff)

lemma first_failing_TooLarge_size:
  "first_failing allowed limit req = Some TooLarge \<Longrightarrow>
     \<exists>f. form_file req = Some f \<and> limit < file_size f"
  by (simp add: first_failing_def validation_order_def split: option.splits if_splits)

lemma reported_POST_image_any:
  "reported_check (fst (POST_image e req w)) =
     (if auth_userId req = None \<or> auth_userId req = Some [] then None
      else first_failing ALLOWED_FORMATS_image MAX_FILE_SIZE_image req)"
proof (cases "auth_userId req = None \<or> auth_userId req = Some []")
  case True
  then show ?thesis using POST_image_unauth [of req e w] by simp
next
  case False
  then obtain uid where "auth_userId req = Some uid" "uid \<noteq> []" by auto
  with False show ?thesis using reported_check_POST_image [of req uid e w] by simp
qed

lemma reported_POST_video_any:
  "reported_check (fst (POST_video e req w)) =
     (if auth_userId req = None \<or> auth_userId req = Some [] then None
      else first_failing ALLOWED_FORMATS_video MAX_FILE_SIZE_video req)"
proof (cases "auth_userId req = None \<or> auth_userId req = Some []")
  case True
  then show ?thesis using POST_video_unauth [of req e w] by simp
next
  case False
  then obtain uid where "auth_userId req = Some uid" "uid \<noteq> []" by auto
  with False show ?thesis using reported_check_POST_video [of req uid e w] by simp
qed

lemma trace_of_same [simp]: "trace_of w w = []"
  by (simp add: trace_of_def)

lemma trace_of_appended [simp]: "trace_of w (w\<lparr>calls := calls w @ cs\<rparr>) = cs"
  by (simp add: trace_of_def)

lemma trace_of_appended_videos [simp]:
  "trace_of w (w\<lparr>calls := calls w @ cs, videos := vs\<rparr>) = cs"
  by (simp add: trace_of_def)

lemma trace_of_appended_images [simp]:
  "trace_of w (w\<lparr>calls := calls w @ cs, images := vs\<rparr>) = cs"
  by (simp add: trace_of_def)

text \<open>
  C6, as amended.  For an authenticated caller whose request has a file and a title that
  is not blank, the handler answers with the invalid-format error exactly when the
  declared type is outside the allowed set of the kind (images: jpeg, png, webp; videos:
  mp4, mpeg, quicktime, x-msvideo, webm, x-matroska), and, when the type is allowed, with
  the too-large error exactly when the size exceeds the limit of the kind (images 10 MiB,
  videos 20 MiB).  In both cases the call log and the tables are unchanged.
\<close>

theorem format_and_size_errors_after_earlier_checks:
  assumes "auth_userId req = Some uid" and "uid \<noteq> []" and "form_file req = Some f"
    and "form_title req = Some t" and "trim t \<noteq> []"
  shows "(reported_check (fst (POST_image e req w)) = Some InvalidFormat \<longleftrightarrow>
            file_type f \<notin> {''image/jpeg'', ''image/png'', ''image/webp''})
       \<and> (file_type f \<in> {''image/jpeg'', ''image/png'', ''image/webp''} \<longrightarrow>
            (reported_check (fst (POST_image e req w)) = Some TooLarge \<longleftrightarrow>
               10 * 1024 * 1024 < file_size f))
       \<and> (reported_check (fst (POST_video e req w)) = Some InvalidFormat \<longleftrightarrow>
            file_type f \<notin> {''video/mp4'', ''video/mpeg'', ''video/quicktime'',
              ''video/x-msvideo'', ''video/webm'', ''video/x-matroska''})
       \<and> (file_type f \<in> {''video/mp4'', ''video/mpeg'', ''video/quicktime'',
              ''video/x-msvideo'', ''video/webm'', ''video/x-matroska''} \<longrightarrow>
            (reported_check (fst (POST_video e req w)) = Some TooLarge \<longleftrightarrow>
               20 * 1024 * 1024 < file_size f))
       \<and> (reported_check (fst (POST_image e req w)) \<in> {Some InvalidFormat, Some TooLarge} \<longrightarrow>
            snd (POST_image e req w) = w)
       \<and> (reported_check (fst (POST_video e req w)) \<in> {Some InvalidFormat, Some TooLarge} \<longrightarrow>
            snd (POST_video e req w) = w)"
proof -
  have nt: "\<not> title_missing (form_title req)"
    using assms(4,5) by (simp add: title_missing_iff)
  have i: "reported_check (fst (POST_image e req w)) =
      (if file_type f \<notin> set ALLOWED_FORMATS_image then Some InvalidFormat
       else if MAX_FILE_SIZE_image < file_size f then Some TooLarge else None)"
    using assms(1,2) first_failing_after_title [OF assms(3) nt]
    by (simp add: reported_POST_image_any)
  have v: "reported_check (fst (POST_video e req w)) =
      (if file_type f \<notin> set ALLOWED_FORMATS_video then Some InvalidFormat
       else if MAX_FILE_SIZE_video < file_size f then Some TooLarge else None)"
    using assms(1,2) first_failing_after_title [OF assms(3) nt]
    by (simp add: reported_POST_video_any)
  have si: "set ALLOWED_FORMATS_image = {''image/jpeg'', ''image/png'', ''image/webp''}"
    by (simp add: ALLOWED_FORMATS_image_def)
  have sv: "set ALLOWED_FORMATS_video = {''video/mp4'', ''video/mpeg'', ''video/quicktime'',
              ''video/x-msvideo'', ''video/webm'', ''video/x-matroska''}"
    by (simp add: ALLOWED_FORMATS_video_def)
  have mi: "MAX_FILE_SIZE_image = 10 * 1024 * 1024" by (simp add: MAX_FILE_SIZE_image_def)
  have mv: "MAX_FILE_SIZE_video = 20 * 1024 * 1024" by (simp add: MAX_FILE_SIZE_video_def)
  have ei: "reported_check (fst (POST_image e req w)) \<in> {Some InvalidFormat, Some TooLarge} \<longrightarrow>
            snd (POST_image e req w) = w"
    using rejected_POST_image_no_effect [of e req w] by auto
  have ev: "reported_check (fst (POST_video e req w)) \<in> {Some InvalidFormat, Some TooLarge} \<longrightarrow>
            snd (POST_video e req w) = w"
    using rejected_POST_video_no_effect [of e req w] by auto
  have c1: "reported_check (fst (POST_image e req w)) = Some InvalidFormat \<longleftrightarrow>
            file_type f \<notin> {''image/jpeg'', ''image/png'', ''image/webp''}"
    unfolding i si [symmetric] by simp
  have c2: "file_type f \<in> {''image/jpeg'', ''image/png'', ''image/webp''} \<longrightarrow>
            (reported_check (fst (POST_image e req w)) = Some TooLarge \<longleftrightarrow>
               10 * 1024 * 1024 < file_size f)"
    unfolding i si [symmetric] mi [symmetric] by simp
  have c3: "reported_check (fst (POST_video e req w)) = Some InvalidFormat \<longleftrightarrow>
            file_type f \<notin> {''video/mp4'', ''video/mpeg'', ''video/quicktime'',
              ''video/x-msvideo'', ''video/webm'', ''video/x-matroska''}"
    unfolding v sv [symmetric] by simp
  have c4: "file_type f \<in> {''video/mp4'', ''video/mpeg'', ''video/quicktime'',
              ''video/x-msvideo'', ''video/webm'', ''video/x-matroska''} \<longrightarrow>
            (reported_check (fst (POST_video e req w)) = Some TooLarge \<longleftrightarrow>
               20 * 1024 * 1024 < file_size f)"
    unfolding v sv [symmetric] mv [symmetric] by simp
  from c1 c2 c3 c4 ei ev show ?thesis by blast
qed

theorem format_and_size_errors_after_earlier_checks_witness:
  "reported_check (fst (POST_image cloud_down (upload_by_u1 gif_file ''pic'') empty_world))
     = Some InvalidFormat
   \<and> snd (POST_image cloud_down (upload_by_u1 gif_file ''pic'') empty_world) = empty_world
   \<and> reported_check (fst (POST_video cloud_down (upload_by_u1 (mp4_file 20971521) ''pic'')
        empty_world)) = Some TooLarge
   \<and> snd (POST_video cloud_down (upload_by_u1 (mp4_file 20971521) ''pic'') empty_world)
       = empty_world"
proof -
  have t: "trim ''pic'' \<noteq> []" by (simp add: trim_def is_ws_def)
  have u: "''u1'' \<noteq> []" by simp
  have g: "file_type gif_file \<notin> {''image/jpeg'', ''image/png'', ''image/webp''}"
    by (simp add: gif_file_def)
  have m: "file_type (mp4_file 20971521) \<in> {''video/mp4'', ''video/mpeg'', ''video/quicktime'',
              ''video/x-msvideo'', ''video/webm'', ''video/x-matroska''}"
    and l: "20 * 1024 * 1024 < file_size (mp4_file 20971521)"
    by (simp_all add: mp4_file_def)
  have a: "auth_userId (upload_by_u1 x ''pic'') = Some ''u1''"
    and f: "form_file (upload_by_u1 x ''pic'') = Some x"
    and ti: "form_title (upload_by_u1 x ''pic'') = Some ''pic''" for x
    by (simp_all add: upload_by_u1_def)
  note gi = format_and_size_errors_after_earlier_checks
              [OF a [of gif_file] u f [of gif_file] ti [of gif_file] t,
               where e = cloud_down and w = empty_world]
  note vi = format_and_size_errors_after_earlier_checks
              [OF a [of "mp4_file 20971521"] u f [of "mp4_file 20971521"]
                 ti [of "mp4_file 20971521"] t,
               where e = cloud_down and w = empty_world]
  from gi g have 1: "reported_check (fst (POST_image cloud_down (upload_by_u1 gif_file ''pic'')
      empty_world)) = Some InvalidFormat" by blast
  with gi have 2: "snd (POST_image cloud_down (upload_by_u1 gif_file ''pic'') empty_world)
      = empty_world" by blast
  from vi m l have 3: "reported_check (fst (POST_video cloud_down
      (upload_by_u1 (mp4_file 20971521) ''pic'') empty_world)) = Some TooLarge" by blast
  with vi have 4: "snd (POST_video cloud_down (upload_by_u1 (mp4_file 20971521) ''pic'')
      empty_world) = empty_world" by blast
  from 1 2 3 4 show ?thesis by blast
qed

text \<open>
  C6 as stated fails: a request with a blank title and the type image/gif is answered
  with the missing-title error although its type is outside the allowed set, and a
  request with the type image/gif and 20000000 bytes is answered with the invalid-format
  error although its size exceeds 10 MiB.
\<close>

theorem format_error_exactly_when_type_outside_counterexample:
  "file_type gif_file \<notin> set ALLOWED_FORMATS_image
   \<and> fst (POST_image cloud_down (upload_by_u1 gif_file ''  '') empty_world)
       = Failure 400 TitleRequired
   \<and> MAX_FILE_SIZE_image < file_size (gif_file\<lparr>file_size := 20000000\<rparr>)
   \<and> fst (POST_image cloud_down (upload_by_u1 (gif_file\<lparr>file_size := 20000000\<rparr>) ''pic'')
        empty_world) = Failure 400 (InvalidFileFormat ''image/gif'')"
  by (simp add: POST_image_def upload_by_u1_def gif_file_def ALLOWED_FORMATS_image_def
      MAX_FILE_SIZE_image_def title_missing_def trim_def is_ws_def)

text \<open>
  C9.  A file whose size equals the limit of its kind (10485760 bytes for images,
  20971520 bytes for videos) is never answered with the too-large error; that error is
  given only for sizes strictly above the limit; and a request of exactly the limit that
  passes the other checks goes on to the upload.
\<close>

theorem size_equal_to_limit_is_accepted:
  assumes "form_file req = Some f"
  shows "(file_size f = 10485760 \<longrightarrow>
            reported_check (fst (POST_image e req w)) \<noteq> Some TooLarge)
       \<and> (file_size f = 20971520 \<longrightarrow>
            reported_check (fst (POST_video e req w)) \<noteq> Some TooLarge)
       \<and> (reported_check (fst (POST_image e req w)) = Some TooLarge \<longrightarrow> 10485760 < file_size f)
       \<and> (reported_check (fst (POST_video e req w)) = Some TooLarge \<longrightarrow> 20971520 < file_size f)
       \<and> (\<forall>uid. auth_userId req = Some uid \<and> uid \<noteq> [] \<and> \<not> title_missing (form_title req) \<and>
              file_type f \<in> set ALLOWED_FORMATS_image \<and> file_size f = 10485760 \<longrightarrow>
              (\<exists>p. take 1 (trace_of w (snd (POST_image e req w))) = [CloudinaryUpload image p]))
       \<and> (\<forall>uid. auth_userId req = Some uid \<and> uid \<noteq> [] \<and> \<not> title_missing (form_title req) \<and>
              file_type f \<in> set ALLOWED_FORMATS_video \<and> file_size f = 20971520 \<longrightarrow>
              (\<exists>p. take 1 (trace_of w (snd (POST_video e req w))) = [CloudinaryUpload video p]))"
proof -
  have i: "reported_check (fst (POST_image e req w)) = Some TooLarge \<longrightarrow> 10485760 < file_size f"
  proof
    assume "reported_check (fst (POST_image e req w)) = Some TooLarge"
    then have "first_failing ALLOWED_FORMATS_image MAX_FILE_SIZE_image req = Some TooLarge"
      by (simp add: reported_POST_image_any split: if_splits)
    from first_failing_TooLarge_size [OF this] assms
    show "10485760 < file_size f" by (simp add: MAX_FILE_SIZE_image_def)
  qed
  have v: "reported_check (fst (POST_video e req w)) = Some TooLarge \<longrightarrow> 20971520 < file_size f"
  proof
    assume "reported_check (fst (POST_video e req w)) = Some TooLarge"
    then have "first_failing ALLOWED_FORMATS_video MAX_FILE_SIZE_video req = Some TooLarge"
      by (simp add: reported_POST_video_any split: if_splits)
    from first_failing_TooLarge_size [OF this] assms
    show "20971520 < file_size f" by (simp add: MAX_FILE_SIZE_video_def)
  qed
  have pi: "\<forall>uid. auth_userId req = Some uid \<and> uid \<noteq> [] \<and> \<not> title_missing (form_title req) \<and>
              file_type f \<in> set ALLOWED_FORMATS_image \<and> file_size f = 10485760 \<longrightarrow>
              (\<exists>p. take 1 (trace_of w (snd (POST_image e req w))) = [CloudinaryUpload image p])"
  proof (intro allI impI)
    fix uid
    assume h: "auth_userId req = Some uid \<and> uid \<noteq> [] \<and> \<not> title_missing (form_title req) \<and>
              file_type f \<in> set ALLOWED_FORMATS_image \<and> file_size f = 10485760"
    then have "file_size f \<le> MAX_FILE_SIZE_image" by (simp add: MAX_FILE_SIZE_image_def)
    with h assms show "\<exists>p. take 1 (trace_of w (snd (POST_image e req w))) = [CloudinaryUpload image p]"
      by (simp add: POST_image_valid [of req uid f] split: sum.split)
  qed
  have pv: "\<forall>uid. auth_userId req = Some uid \<and> uid \<noteq> [] \<and> \<not> title_missing (form_title req) \<and>
              file_type f \<in> set ALLOWED_FORMATS_video \<and> file_size f = 20971520 \<longrightarrow>
              (\<exists>p. take 1 (trace_of w (snd (POST_video e req w))) = [CloudinaryUpload video p])"
  proof (intro allI impI)
    fix uid
    assume h: "auth_userId req = Some uid \<and> uid \<noteq> [] \<and> \<not> title_missing (form_title req) \<and>
              file_type f \<in> set ALLOWED_FORMATS_video \<and> file_size f = 20971520"
    then have le: "file_size f \<le> MAX_FILE_SIZE_video" by (simp add: MAX_FILE_SIZE_video_def)
    from h obtain t where t: "form_title req = Some t"
      by (cases "form_title req") (simp_all add: title_missing_def)
    from h assms le t
    show "\<exists>p. take 1 (trace_of w (snd (POST_video e req w))) = [CloudinaryUpload video p]"
      by (simp add: POST_video_valid [of req uid f t] split: sum.split)
  qed
  from i v pi pv show ?thesis by auto
qed

theorem size_equal_to_limit_is_accepted_witness:
  "file_size (mp4_file 20971520) = 20971520
   \<and> reported_check (fst (POST_video (cloud_ok ''videos/u1/123-abc'' None None)
        (upload_by_u1 (mp4_file 20971520) ''demo'') empty_world)) \<noteq> Some TooLarge
   \<and> (\<exists>p. take 1 (trace_of empty_world (snd (POST_video (cloud_ok ''videos/u1/123-abc'' None None)
        (upload_by_u1 (mp4_file 20971520) ''demo'') empty_world))) = [CloudinaryUpload video p])"
proof -
  have f: "form_file (upload_by_u1 (mp4_file 20971520) ''demo'') = Some (mp4_file 20971520)"
    by (simp add: upload_by_u1_def)
  have h: "auth_userId (upload_by_u1 (mp4_file 20971520) ''demo'') = Some ''u1'' \<and> ''u1'' \<noteq> []
      \<and> \<not> title_missing (form_title (upload_by_u1 (mp4_file 20971520) ''demo''))
      \<and> file_type (mp4_file 20971520) \<in> set ALLOWED_FORMATS_video
      \<and> file_size (mp4_file 20971520) = 20971520"
    by (simp add: upload_by_u1_def mp4_file_def ALLOWED_FORMATS_video_def title_missing_def
        trim_def is_ws_def)
  from size_equal_to_limit_is_accepted
         [OF f, of "cloud_ok ''videos/u1/123-abc'' None None" empty_world] h
  show ?thesis by blast
qed

subsection \<open>The delete handlers\<close>

lemma findUnique_delete_row: "findUnique i (delete_row i table) = None"
  by (induction table) (simp_all add: findUnique_def delete_row_def)

lemma set_delete_row: "set (delete_row i table) = {r \<in> set table. id' r \<noteq> i}"
  by (simp add: delete_row_def)

lemma DELETE_video_owner:
  assumes "del_userId req = Some uid" "uid \<noteq> []"
    and "findUnique (param_id req) (videos w) = Some v" "userId v = uid"
  shows "DELETE_video e req w =
     (Success 200 ''Video deleted successfully.'',
      w\<lparr>calls := calls w @ [CloudinaryDestroy video (publicId v), PrismaDelete video (param_id req)],
        videos := delete_row (param_id req) (videos w)\<rparr>)"
  using assms
  by (simp add: DELETE_video_def prisma_video_delete_def Let_def split: option.split)

lemma DELETE_image_owner:
  assumes "del_userId req = Some uid" "uid \<noteq> []"
    and "findUnique (param_id req) (images w) = Some i" "userId i = uid"
  shows "DELETE_image e req w =
     (Success 200 ''Image deleted successfully.'',
      w\<lparr>calls := calls w @ [CloudinaryDestroy image (publicId i), PrismaDelete image (param_id req)],
        images := delete_row (param_id req) (images w)\<rparr>)"
  using assms
  by (simp add: DELETE_image_def prisma_image_delete_def Let_def split: option.split)

text \<open>
  C3.  When the owner of a record asks for its deletion and Cloudinary's
  \<^verbatim>\<open>destroy\<close> fails, the failure is not propagated: the handler still calls the
  store's delete after the destroy call, the record is gone from its table, every other
  row stays, and the answer is 200.
\<close>

theorem destroy_failure_does_not_block_delete:
  assumes "del_userId req = Some uid" and "uid \<noteq> []" and "destroy_outcome e = Some err"
  shows "(\<forall>v. findUnique (param_id req) (videos w) = Some v \<and> userId v = uid \<longrightarrow>
            fst (DELETE_video e req w) = Success 200 ''Video deleted successfully.'' \<and>
            findUnique (param_id req) (videos (snd (DELETE_video e req w))) = None \<and>
            set (videos (snd (DELETE_video e req w))) =
              {r \<in> set (videos w). id' r \<noteq> param_id req} \<and>
            images (snd (DELETE_video e req w)) = images w \<and>
            trace_of w (snd (DELETE_video e req w)) =
              [CloudinaryDestroy video (publicId v), PrismaDelete video (param_id req)])
       \<and> (\<forall>i. findUnique (param_id req) (images w) = Some i \<and> userId i = uid \<longrightarrow>
            fst (DELETE_image e req w) = Success 200 ''Image deleted successfully.'' \<and>
            findUnique (param_id req) (images (snd (DELETE_image e req w))) = None \<and>
            set (images (snd (DELETE_image e req w))) =
              {r \<in> set (images w). id' r \<noteq> param_id req} \<and>
            videos (snd (DELETE_image e req w)) = videos w \<and>
            trace_of w (snd (DELETE_image e req w)) =
              [CloudinaryDestroy image (publicId i), PrismaDelete image (param_id req)])"
proof (intro conjI allI impI)
  fix v
  assume h: "findUnique (param_id req) (videos w) = Some v \<and> userId v = uid"
  note eq = DELETE_video_owner [OF assms(1,2), of w v e]
  from h eq show "fst (DELETE_video e req w) = Success 200 ''Video deleted successfully.''"
    by simp
  from h eq show "findUnique (param_id req) (videos (snd (DELETE_video e req w))) = None"
    by (simp add: findUnique_delete_row)
  from h eq show "set (videos (snd (DELETE_video e req w))) =
              {r \<in> set (videos w). id' r \<noteq> param_id req}"
    by (simp add: set_delete_row)
  from h eq show "images (snd (DELETE_video e req w)) = images w" by simp
  from h eq show "trace_of w (snd (DELETE_video e req w)) =
              [CloudinaryDestroy video (publicId v), PrismaDelete video (param_id req)]"
    by simp
next
  fix i
  assume h: "findUnique (param_id req) (images w) = Some i \<and> userId i = uid"
  note eq = DELETE_image_owner [OF assms(1,2), of w i e]
  from h eq show "fst (DELETE_image e req w) = Success 200 ''Image deleted successfully.''"
    by simp
  from h eq show "findUnique (param_id req) (images (snd (DELETE_image e req w))) = None"
    by (simp add: findUnique_delete_row)
  from h eq show "set (images (snd (DELETE_image e req w))) =
              {r \<in> set (images w). id' r \<noteq> param_id req}"
    by (simp add: set_delete_row)
  from h eq show "videos (snd (DELETE_image e req w)) = videos w" by simp
  from h eq show "trace_of w (snd (DELETE_image e req w)) =
              [CloudinaryDestroy image (publicId i), PrismaDelete image (param_id req)]"
    by simp
qed

theorem destroy_failure_does_not_block_delete_witness:
  "destroy_outcome cloud_down \<noteq> None
   \<and> findUnique ''v1'' (videos u1_world) = Some (video_row_of ''v1'' ''u1'' 1)
   \<and> fst (DELETE_video cloud_down \<lparr>del_userId = Some ''u1'', param_id = ''v1''\<rparr> u1_world)
       = Success 200 ''Video deleted successfully.''
   \<and> findUnique ''v1'' (videos (snd (DELETE_video cloud_down
        \<lparr>del_userId = Some ''u1'', param_id = ''v1''\<rparr> u1_world))) = None
   \<and> trace_of u1_world (snd (DELETE_video cloud_down
        \<lparr>del_userId = Some ''u1'', param_id = ''v1''\<rparr> u1_world))
       = [CloudinaryDestroy video ''videos/u1/v1'', PrismaDelete video ''v1'']"
proof -
  have d: "destroy_outcome cloud_down =
      Some \<lparr>http_code = Some 503, code = None, message = ''unavailable''\<rparr>"
    by (simp add: cloud_down_def)
  have a: "del_userId \<lparr>del_userId = Some ''u1'', param_id = ''v1''\<rparr> = Some ''u1''"
    and u: "''u1'' \<noteq> []" by simp_all
  have f: "findUnique (param_id \<lparr>del_userId = Some ''u1'', param_id = ''v1''\<rparr>) (videos u1_world)
      = Some (video_row_of ''v1'' ''u1'' 1) \<and> userId (video_row_of ''v1'' ''u1'' 1) = ''u1''"
    by (simp add: findUnique_def u1_world_def video_row_of_def)
  have p: "publicId (video_row_of ''v1'' ''u1'' 1) = ''videos/u1/v1''"
    by (simp add: video_row_of_def)
  from destroy_failure_does_not_block_delete [OF a u d, of u1_world] f p d
  show ?thesis by simp
qed

text \<open>
  C4.  When the record exists and its owner is not the caller, the answer is 403
  Forbidden and the state is exactly what it was: the record is still found, and the call
  log has no new entry, so \<^verbatim>\<open>destroy\<close> was not invoked.
\<close>

theorem delete_by_other_user_is_forbidden:
  assumes "del_userId req = Some uid" and "uid \<noteq> []"
  shows "(\<forall>v. findUnique (param_id req) (videos w) = Some v \<and> userId v \<noteq> uid \<longrightarrow>
            DELETE_video e req w = (Failure 403 Forbidden, w) \<and>
            findUnique (param_id req) (videos (snd (DELETE_video e req w))) = Some v \<and>
            trace_of w (snd (DELETE_video e req w)) = [])
       \<and> (\<forall>i. findUnique (param_id req) (images w) = Some i \<and> userId i \<noteq> uid \<longrightarrow>
            DELETE_image e req w = (Failure 403 Forbidden, w) \<and>
            findUnique (param_id req) (images (snd (DELETE_image e req w))) = Some i \<and>
            trace_of w (snd (DELETE_image e req w)) = [])"
  using assms by (simp add: DELETE_video_def DELETE_image_def)

theorem delete_by_other_user_is_forbidden_witness:
  "findUnique ''i1'' (images u1_world) = Some (row_of ''i1'' ''u1'' 1)
   \<and> userId (row_of ''i1'' ''u1'' 1) \<noteq> ''u2''
   \<and> DELETE_image cloud_down \<lparr>del_userId = Some ''u2'', param_id = ''i1''\<rparr> u1_world
       = (Failure 403 Forbidden, u1_world)"
proof -
  have a: "del_userId \<lparr>del_userId = Some ''u2'', param_id = ''i1''\<rparr> = Some ''u2''"
    and u: "''u2'' \<noteq> []" by simp_all
  have f: "findUnique (param_id \<lparr>del_userId = Some ''u2'', param_id = ''i1''\<rparr>) (images u1_world)
      = Some (row_of ''i1'' ''u1'' 1) \<and> userId (row_of ''i1'' ''u1'' 1) \<noteq> ''u2''"
    by (simp add: findUnique_def u1_world_def row_of_def)
  from delete_by_other_user_is_forbidden [OF a u, of u1_world cloud_down] f
  show ?thesis by simp
qed

subsection \<open>What an upload leaves behind\<close>

lemma POST_image_effects:
  "images (snd (POST_image e req w)) = images w
   \<and> videos (snd (POST_image e req w)) = videos w
   \<and> (\<exists>s b. fst (POST_image e req w) = Failure s b)
   \<and> (trace_of w (snd (POST_image e req w)) = []
      \<or> (\<exists>p err. upload_outcome e = Inl err
            \<and> trace_of w (snd (POST_image e req w)) = [CloudinaryUpload image p])
      \<or> (\<exists>p r. upload_outcome e = Inr r
            \<and> trace_of w (snd (POST_image e req w)) = [CloudinaryUpload image p, PrismaCreate image]))"
proof (cases rule: upload_request_cases
    [where req = req and allowed = ALLOWED_FORMATS_image and limit = MAX_FILE_SIZE_image])
  case unauth
  then show ?thesis by (simp add: POST_image_unauth)
next
  case (nofile u)
  then show ?thesis by (simp add: POST_image_nofile)
next
  case (notitle u f)
  then show ?thesis by (simp add: POST_image_notitle)
next
  case (badtype u f t)
  then show ?thesis by (simp add: POST_image_badtype)
next
  case (toolarge u f t)
  then show ?thesis by (simp add: POST_image_toolarge)
next
  case (valid u f t)
  show ?thesis
  proof (cases "upload_outcome e")
    case (Inl err)
    with valid catch_upload_Failure [of err] show ?thesis
      by (simp add: POST_image_valid [of req u f])
  next
    case (Inr r)
    with valid show ?thesis by (simp add: POST_image_valid [of req u f])
  qed
qed

lemma POST_video_effects:
  "images (snd (POST_video e req w)) = images w
   \<and> ((videos (snd (POST_video e req w)) = videos w
         \<and> (\<exists>s b. fst (POST_video e req w) = Failure s b)
         \<and> (trace_of w (snd (POST_video e req w)) = []
            \<or> (\<exists>p err. upload_outcome e = Inl err
                  \<and> trace_of w (snd (POST_video e req w)) = [CloudinaryUpload video p])
            \<or> (\<exists>p r. upload_outcome e = Inr r
                  \<and> trace_of w (snd (POST_video e req w))
                      = [CloudinaryUpload video p, PrismaCreate video])))
      \<or> (\<exists>p r v x. upload_outcome e = Inr r
            \<and> fst (POST_video e req w) = Success 201 x
            \<and> videos (snd (POST_video e req w)) = videos w @ [v]
            \<and> trace_of w (snd (POST_video e req w))
                = [CloudinaryUpload video p, PrismaCreate video]))"
proof (cases rule: upload_request_cases
    [where req = req and allowed = ALLOWED_FORMATS_video and limit = MAX_FILE_SIZE_video])
  case unauth
  then show ?thesis by (simp add: POST_video_unauth)
next
  case (nofile u)
  then show ?thesis by (simp add: POST_video_nofile)
next
  case (notitle u f)
  then show ?thesis by (simp add: POST_video_notitle)
next
  case (badtype u f t)
  then show ?thesis by (simp add: POST_video_badtype)
next
  case (toolarge u f t)
  then show ?thesis by (simp add: POST_video_toolarge)
next
  case (valid u f t)
  show ?thesis
  proof (cases "upload_outcome e")
    case (Inl err)
    with valid catch_upload_Failure [of err] show ?thesis
      by (simp add: POST_video_valid [of req u f t])
  next
    case (Inr r)
    with valid show ?thesis by (simp add: POST_video_valid [of req u f t])
  qed
qed

text \<open>
  C2.  If Cloudinary's upload fails, both upload handlers answer with a failure, neither
  table changes and the store's create is not called.  For every request, a create call
  or a changed table implies that the upload had succeeded and that the create call comes
  directly after the upload call: the store is never written first.
\<close>

theorem store_written_only_after_upload_succeeded:
  "(\<forall>err. upload_outcome e = Inl err \<longrightarrow>
       (\<exists>s b. fst (POST_video e req w) = Failure s b) \<and>
       (\<exists>s b. fst (POST_image e req w) = Failure s b) \<and>
       videos (snd (POST_video e req w)) = videos w \<and>
       images (snd (POST_video e req w)) = images w \<and>
       videos (snd (POST_image e req w)) = videos w \<and>
       images (snd (POST_image e req w)) = images w \<and>
       PrismaCreate video \<notin> set (trace_of w (snd (POST_video e req w))) \<and>
       PrismaCreate image \<notin> set (trace_of w (snd (POST_image e req w))))
   \<and> (PrismaCreate video \<in> set (trace_of w (snd (POST_video e req w))) \<or>
        videos (snd (POST_video e req w)) \<noteq> videos w \<or>
        images (snd (POST_video e req w)) \<noteq> images w \<longrightarrow>
        (\<exists>r p. upload_outcome e = Inr r \<and>
           trace_of w (snd (POST_video e req w)) = [CloudinaryUpload video p, PrismaCreate video]))
   \<and> (PrismaCreate image \<in> set (trace_of w (snd (POST_image e req w))) \<or>
        videos (snd (POST_image e req w)) \<noteq> videos w \<or>
        images (snd (POST_image e req w)) \<noteq> images w \<longrightarrow>
        (\<exists>r p. upload_outcome e = Inr r \<and>
           trace_of w (snd (POST_image e req w)) = [CloudinaryUpload image p, PrismaCreate image]))"
proof -
  note v = POST_video_effects [of e req w]
  note i = POST_image_effects [of e req w]
  have 1: "\<forall>err. upload_outcome e = Inl err \<longrightarrow>
       (\<exists>s b. fst (POST_video e req w) = Failure s b) \<and>
       videos (snd (POST_video e req w)) = videos w \<and>
       images (snd (POST_video e req w)) = images w \<and>
       PrismaCreate video \<notin> set (trace_of w (snd (POST_video e req w)))"
    using v by auto
  have 2: "\<forall>err. upload_outcome e = Inl err \<longrightarrow>
       (\<exists>s b. fst (POST_image e req w) = Failure s b) \<and>
       videos (snd (POST_image e req w)) = videos w \<and>
       images (snd (POST_image e req w)) = images w \<and>
       PrismaCreate image \<notin> set (trace_of w (snd (POST_image e req w)))"
    using i by auto
  have 3: "PrismaCreate video \<in> set (trace_of w (snd (POST_video e req w))) \<or>
        videos (snd (POST_video e req w)) \<noteq> videos w \<or>
        images (snd (POST_video e req w)) \<noteq> images w \<longrightarrow>
        (\<exists>r p. upload_outcome e = Inr r \<and>
           trace_of w (snd (POST_video e req w)) = [CloudinaryUpload video p, PrismaCreate video])"
    using v by auto
  have 4: "PrismaCreate image \<in> set (trace_of w (snd (POST_image e req w))) \<or>
        videos (snd (POST_image e req w)) \<noteq> videos w \<or>
        images (snd (POST_image e req w)) \<noteq> images w \<longrightarrow>
        (\<exists>r p. upload_outcome e = Inr r \<and>
           trace_of w (snd (POST_image e req w)) = [CloudinaryUpload image p, PrismaCreate image])"
    using i by auto
  from 1 2 3 4 show ?thesis by blast
qed

theorem store_written_only_after_upload_succeeded_witness:
  "(\<exists>err. upload_outcome cloud_down = Inl err)
   \<and> (\<exists>s b. fst (POST_video cloud_down (upload_by_u1 (mp4_file 1000) ''demo'') u1_world)
         = Failure s b)
   \<and> videos (snd (POST_video cloud_down (upload_by_u1 (mp4_file 1000) ''demo'') u1_world))
       = videos u1_world
   \<and> PrismaCreate video \<in> set (trace_of empty_world
        (snd (POST_video (cloud_ok ''videos/u1/123-abc'' None None)
           (upload_by_u1 (mp4_file 1000) ''demo'') empty_world)))
   \<and> (\<exists>r p. upload_outcome (cloud_ok ''videos/u1/123-abc'' None None) = Inr r \<and>
         trace_of empty_world (snd (POST_video (cloud_ok ''videos/u1/123-abc'' None None)
           (upload_by_u1 (mp4_file 1000) ''demo'') empty_world))
         = [CloudinaryUpload video p, PrismaCreate video])"
proof -
  have d: "upload_outcome cloud_down =
      Inl \<lparr>http_code = Some 503, code = None, message = ''unavailable''\<rparr>"
    by (simp add: cloud_down_def)
  have c: "PrismaCreate video \<in> set (trace_of empty_world
        (snd (POST_video (cloud_ok ''videos/u1/123-abc'' None None)
           (upload_by_u1 (mp4_file 1000) ''demo'') empty_world)))"
    by (simp add: POST_video_def upload_by_u1_def mp4_file_def cloud_ok_def empty_world_def
        title_missing_def trim_def is_ws_def ALLOWED_FORMATS_video_def MAX_FILE_SIZE_video_def
        prisma_video_create_def video_create_data_def collides_def trace_of_def Let_def)
  note a = store_written_only_after_upload_succeeded
             [of cloud_down "upload_by_u1 (mp4_file 1000) ''demo''" u1_world]
  note b = store_written_only_after_upload_succeeded
             [of "cloud_ok ''videos/u1/123-abc'' None None"
                 "upload_by_u1 (mp4_file 1000) ''demo''" empty_world]
  from a d have 1: "(\<exists>s b. fst (POST_video cloud_down (upload_by_u1 (mp4_file 1000) ''demo'')
      u1_world) = Failure s b)
    \<and> videos (snd (POST_video cloud_down (upload_by_u1 (mp4_file 1000) ''demo'') u1_world))
       = videos u1_world" by blast
  from b c have 2: "\<exists>r p. upload_outcome (cloud_ok ''videos/u1/123-abc'' None None) = Inr r \<and>
         trace_of empty_world (snd (POST_video (cloud_ok ''videos/u1/123-abc'' None None)
           (upload_by_u1 (mp4_file 1000) ''demo'') empty_world))
         = [CloudinaryUpload video p, PrismaCreate video]" by blast
  from d 1 c 2 show ?thesis by blast
qed

lemma POST_video_success:
  assumes "POST_video e req w = (Success s x, w')"
  obtains uid f t r where
    "auth_userId req = Some uid" "uid \<noteq> []" "form_file req = Some f" "form_title req = Some t"
    "upload_outcome e = Inr r" "s = 201"
    "x = \<lparr>res_id = new_id e, res_publicId = public_id r, res_title = trim t,
          res_description = description_or_null (form_description req),
          res_secureUrl = secure_url r, res_originalSize = file_size f,
          res_createdAt = db_now e,
          res_compressedSize = bytes_or (bytes r) (file_size f),
          res_duration = duration_or_0 (result_duration r)\<rparr>"
    "videos w' = videos w @
       [\<lparr>id' = new_id e, title = trim t,
         description = description_or_null (form_description req),
         publicId = public_id r, userId = uid, originalSize = file_size f,
         createdAt = db_now e, updatedAt = db_now e,
         compressedSize = bytes_or (bytes r) (file_size f),
         duration = duration_or_0 (result_duration r)\<rparr>]"
proof (cases rule: upload_request_cases
    [where req = req and allowed = ALLOWED_FORMATS_video and limit = MAX_FILE_SIZE_video])
  case unauth
  with assms show ?thesis by (simp add: POST_video_unauth)
next
  case (nofile u)
  with assms show ?thesis by (simp add: POST_video_nofile)
next
  case (notitle u f)
  with assms show ?thesis by (simp add: POST_video_notitle)
next
  case (badtype u f t)
  with assms show ?thesis by (simp add: POST_video_badtype)
next
  case (toolarge u f t)
  with assms show ?thesis by (simp add: POST_video_toolarge)
next
  case (valid u f t)
  show ?thesis
  proof (cases "upload_outcome e")
    case (Inl err)
    obtain s' b where "(catch_upload err :: video_response response) = Failure s' b"
      using catch_upload_Failure by blast
    with Inl valid assms show ?thesis
      by (simp add: POST_video_valid [of req u f t])
  next
    case (Inr r)
    show ?thesis
    proof (cases "collides (new_id e) (public_id r) (videos w)")
      case True
      with Inr valid assms show ?thesis by (simp add: POST_video_valid [of req u f t])
    next
      case False
      with Inr valid assms have
        "s = 201"
        "x = \<lparr>res_id = new_id e, res_publicId = public_id r, res_title = trim t,
          res_description = description_or_null (form_description req),
          res_secureUrl = secure_url r, res_originalSize = file_size f,
          res_createdAt = db_now e,
          res_compressedSize = bytes_or (bytes r) (file_size f),
          res_duration = duration_or_0 (result_duration r)\<rparr>"
        "videos w' = videos w @
         [\<lparr>id' = new_id e, title = trim t,
           description = description_or_null (form_description req),
           publicId = public_id r, userId = u, originalSize = file_size f,
           createdAt = db_now e, updatedAt = db_now e,
           compressedSize = bytes_or (bytes r) (file_size f),
           duration = duration_or_0 (result_duration r)\<rparr>]"
        by (auto simp: POST_video_valid [of req u f t])
      with valid Inr show ?thesis using that by blast
    qed
  qed
qed

lemma video_upload_sets_owner:
  assumes "POST_video e req w = (Success s x, w')"
  shows "\<exists>uid v. auth_userId req = Some uid \<and> videos w' = videos w @ [v] \<and> userId v = uid"
  using POST_video_success [OF assms] by (metis Image.select_convs(5))

text \<open>
  C7, as amended.  After a successful video upload the table has one new row: its title
  is the trimmed title, its description is the trimmed description or null (null when the
  field is absent or blank), its publicId is the \<^verbatim>\<open>public_id\<close> Cloudinary returned,
  its owner is the caller, its originalSize is the size of the file, its compressedSize is
  the size Cloudinary reported, or the size of the file when Cloudinary reported none or
  reported 0, and its duration is the duration Cloudinary reported, or 0 when it reported
  none.
\<close>

theorem video_record_fields:
  assumes "POST_video e req w = (Success s x, w')"
  shows "\<exists>uid f t r v.
           auth_userId req = Some uid \<and> form_file req = Some f \<and> form_title req = Some t \<and>
           upload_outcome e = Inr r \<and> s = 201 \<and>
           videos w' = videos w @ [v] \<and>
           title v = trim t \<and>
           description v =
             (case form_description req of
                None \<Rightarrow> None
              | Some d \<Rightarrow> if trim d = [] then None else Some (trim d)) \<and>
           publicId v = public_id r \<and>
           userId v = uid \<and>
           originalSize v = file_size f \<and>
           compressedSize v =
             (case bytes r of
                None \<Rightarrow> file_size f
              | Some b \<Rightarrow> if b = 0 then file_size f else b) \<and>
           duration v = (case result_duration r of None \<Rightarrow> 0 | Some d \<Rightarrow> d)"
proof (rule POST_video_success [OF assms])
  fix uid f t r
  assume h: "auth_userId req = Some uid" "form_file req = Some f" "form_title req = Some t"
       "upload_outcome e = Inr r" "s = 201"
    and v: "videos w' = videos w @
       [\<lparr>id' = new_id e, title = trim t,
         description = description_or_null (form_description req),
         publicId = public_id r, userId = uid, originalSize = file_size f,
         createdAt = db_now e, updatedAt = db_now e,
         compressedSize = bytes_or (bytes r) (file_size f),
         duration = duration_or_0 (result_duration r)\<rparr>]"
  have d: "description_or_null (form_description req) =
      (case form_description req of
         None \<Rightarrow> None
       | Some d \<Rightarrow> if trim d = [] then None else Some (trim d))"
    by (simp add: description_or_null_def)
  have b: "bytes_or (bytes r) (file_size f) =
      (case bytes r of None \<Rightarrow> file_size f | Some b \<Rightarrow> if b = 0 then file_size f else b)"
    by (simp add: bytes_or_def)
  have u: "duration_or_0 (result_duration r) =
      (case result_duration r of None \<Rightarrow> 0 | Some d \<Rightarrow> d)"
    by (simp add: duration_or_0_def split: option.split)
  show ?thesis
    apply (rule exI [of _ uid], rule exI [of _ f], rule exI [of _ t], rule exI [of _ r])
    apply (rule exI [of _ "\<lparr>id' = new_id e, title = trim t,
         description = description_or_null (form_description req),
         publicId = public_id r, userId = uid, originalSize = file_size f,
         createdAt = db_now e, updatedAt = db_now e,
         compressedSize = bytes_or (bytes r) (file_size f),
         duration = duration_or_0 (result_duration r)\<rparr>"])
    using h v d b u by simp
qed

theorem video_record_fields_witness:
  "\<exists>v. videos (snd (POST_video (cloud_ok ''videos/u1/123-abc'' (Some 6000000) (Some 42.5))
            (upload_by_u1 (mp4_file 15728640) '' demo '') empty_world)) = [v]
       \<and> title v = ''demo'' \<and> description v = None \<and> publicId v = ''videos/u1/123-abc''
       \<and> userId v = ''u1'' \<and> originalSize v = 15728640 \<and> compressedSize v = 6000000
       \<and> duration v = 42.5"
proof -
  let ?e = "cloud_ok ''videos/u1/123-abc'' (Some 6000000) (Some 42.5)"
  let ?req = "upload_by_u1 (mp4_file 15728640) '' demo ''"
  have "\<exists>x. fst (POST_video ?e ?req empty_world) = Success 201 x"
    by (simp add: POST_video_def upload_by_u1_def mp4_file_def cloud_ok_def empty_world_def
        title_missing_def trim_def is_ws_def ALLOWED_FORMATS_video_def MAX_FILE_SIZE_video_def
        prisma_video_create_def video_create_data_def collides_def Let_def)
  then obtain x where "fst (POST_video ?e ?req empty_world) = Success 201 x" ..
  then have "POST_video ?e ?req empty_world = (Success 201 x, snd (POST_video ?e ?req empty_world))"
    by (metis prod.collapse)
  from video_record_fields [OF this] obtain uid f t r v where
    a: "auth_userId ?req = Some uid" and f: "form_file ?req = Some f"
    and t: "form_title ?req = Some t" and r: "upload_outcome ?e = Inr r"
    and vs: "videos (snd (POST_video ?e ?req empty_world)) = videos empty_world @ [v]"
    and 1: "title v = trim t"
    and 2: "description v = (case form_description ?req of None \<Rightarrow> None
        | Some d \<Rightarrow> if trim d = [] then None else Some (trim d))"
    and 3: "publicId v = public_id r" and 4: "userId v = uid"
    and 5: "originalSize v = file_size f"
    and 6: "compressedSize v = (case bytes r of None \<Rightarrow> file_size f
        | Some b \<Rightarrow> if b = 0 then file_size f else b)"
    and 7: "duration v = (case result_duration r of None \<Rightarrow> 0 | Some d \<Rightarrow> d)"
    by blast
  from a have uid: "uid = ''u1''" by (simp add: upload_by_u1_def)
  from f have fe: "f = mp4_file 15728640" by (simp add: upload_by_u1_def)
  from t have te: "t = '' demo ''" by (simp add: upload_by_u1_def)
  from r have re: "r = \<lparr>public_id = ''videos/u1/123-abc'', secure_url = ''https://cdn/x'',
      bytes = Some 6000000, result_duration = Some 42.5\<rparr>" by (simp add: cloud_ok_def)
  have tr: "trim '' demo '' = ''demo''" by (simp add: trim_def is_ws_def)
  have d: "form_description ?req = Some ''  ''" by (simp add: upload_by_u1_def)
  have tb: "trim ''  '' = []" by (simp add: trim_def is_ws_def)
  have v0: "videos (snd (POST_video ?e ?req empty_world)) = [v]"
    using vs by (simp add: empty_world_def)
  have "title v = ''demo''" using 1 te tr by simp
  moreover have "description v = None" using 2 d tb by simp
  moreover have "publicId v = ''videos/u1/123-abc''" using 3 re by simp
  moreover have "userId v = ''u1''" using 4 uid by simp
  moreover have "originalSize v = 15728640" using 5 fe by (simp add: mp4_file_def)
  moreover have "compressedSize v = 6000000" using 6 re by simp
  moreover have "duration v = 42.5" using 7 re by simp
  ultimately show ?thesis using v0 by blast
qed

text \<open>
  C7 as stated fails where Cloudinary reports a size of 0: the row does not get the
  reported size but the size of the file.
\<close>

theorem reported_zero_size_is_replaced_counterexample:
  "bytes \<lparr>public_id = ''videos/u1/123-abc'', secure_url = ''https://cdn/x'', bytes = Some 0,
          result_duration = Some 3\<rparr> = Some 0
   \<and> upload_outcome (cloud_ok ''videos/u1/123-abc'' (Some 0) (Some 3)) =
       Inr \<lparr>public_id = ''videos/u1/123-abc'', secure_url = ''https://cdn/x'', bytes = Some 0,
            result_duration = Some 3\<rparr>
   \<and> map compressedSize (videos (snd (POST_video (cloud_ok ''videos/u1/123-abc'' (Some 0) (Some 3))
        (upload_by_u1 (mp4_file 1000) ''demo'') empty_world))) = [1000]"
  by (simp add: POST_video_def upload_by_u1_def mp4_file_def cloud_ok_def empty_world_def
      title_missing_def trim_def is_ws_def ALLOWED_FORMATS_video_def MAX_FILE_SIZE_video_def
      prisma_video_create_def video_create_data_def collides_def bytes_or_def Let_def)

text \<open>
  C10.  After a successful video upload for which Cloudinary reported 0 bytes, the
  compressedSize of the new row and of the response is the size of the file, not 0.  A
  description that is empty after trimming is stored as null in the new video row, and is
  null in the \<^verbatim>\<open>data\<close> object the image handler gives to the store.
\<close>

theorem zero_bytes_and_blank_description_fall_back:
  assumes "POST_video e req w = (Success s x, w')" and "upload_outcome e = Inr r"
    and "form_file req = Some f"
  shows "(bytes r = Some 0 \<longrightarrow>
            (\<exists>v. videos w' = videos w @ [v] \<and> compressedSize v = file_size f) \<and>
            res_compressedSize x = file_size f)
       \<and> (\<forall>d. form_description req = Some d \<and> trim d = [] \<longrightarrow>
            (\<exists>v. videos w' = videos w @ [v] \<and> description v = None) \<and>
            res_description x = None)
       \<and> (\<forall>d t' f' r'. trim d = [] \<longrightarrow>
            data_description (image_create_data t' (Some d) f' r') = None)"
proof (rule POST_video_success [OF assms(1)])
  fix uid f0 t r0
  assume h: "form_file req = Some f0" "upload_outcome e = Inr r0"
    and x: "x = \<lparr>res_id = new_id e, res_publicId = public_id r0, res_title = trim t,
          res_description = description_or_null (form_description req),
          res_secureUrl = secure_url r0, res_originalSize = file_size f0,
          res_createdAt = db_now e,
          res_compressedSize = bytes_or (bytes r0) (file_size f0),
          res_duration = duration_or_0 (result_duration r0)\<rparr>"
    and v: "videos w' = videos w @
       [\<lparr>id' = new_id e, title = trim t,
         description = description_or_null (form_description req),
         publicId = public_id r0, userId = uid, originalSize = file_size f0,
         createdAt = db_now e, updatedAt = db_now e,
         compressedSize = bytes_or (bytes r0) (file_size f0),
         duration = duration_or_0 (result_duration r0)\<rparr>]"
  from h assms(2,3) have eq: "f0 = f" "r0 = r" by simp_all
  have 1: "bytes r = Some 0 \<longrightarrow>
            (\<exists>v. videos w' = videos w @ [v] \<and> compressedSize v = file_size f) \<and>
            res_compressedSize x = file_size f"
    using x v eq by (simp add: bytes_or_def)
  have 2: "\<forall>d. form_description req = Some d \<and> trim d = [] \<longrightarrow>
            (\<exists>v. videos w' = videos w @ [v] \<and> description v = None) \<and>
            res_description x = None"
    using x v by (simp add: description_or_null_def)
  have 3: "\<forall>d t' f' r'. trim d = [] \<longrightarrow>
            data_description (image_create_data t' (Some d) f' r') = None"
    by (simp add: image_create_data_def description_or_null_def)
  from 1 2 3 show ?thesis by blast
qed

theorem zero_bytes_and_blank_description_fall_back_witness:
  "bytes \<lparr>public_id = ''videos/u1/123-abc'', secure_url = ''https://cdn/x'', bytes = Some 0,
          result_duration = None\<rparr> = Some 0
   \<and> form_description (upload_by_u1 (mp4_file 1000) ''demo'') = Some ''  '' \<and> trim ''  '' = []
   \<and> (\<exists>v. videos (snd (POST_video (cloud_ok ''videos/u1/123-abc'' (Some 0) None)
              (upload_by_u1 (mp4_file 1000) ''demo'') empty_world)) = videos empty_world @ [v]
          \<and> compressedSize v = 1000)
   \<and> (\<exists>v. videos (snd (POST_video (cloud_ok ''videos/u1/123-abc'' (Some 0) None)
              (upload_by_u1 (mp4_file 1000) ''demo'') empty_world)) = videos empty_world @ [v]
          \<and> description v = None)
   \<and> data_description (image_create_data ''demo'' (Some ''  '') png_file
        \<lparr>public_id = ''images/u1/123-abc'', secure_url = ''https://cdn/x'', bytes = None,
          result_duration = None\<rparr>) = None"
proof -
  let ?e = "cloud_ok ''videos/u1/123-abc'' (Some 0) None"
  let ?req = "upload_by_u1 (mp4_file 1000) ''demo''"
  let ?r = "\<lparr>public_id = ''videos/u1/123-abc'', secure_url = ''https://cdn/x'', bytes = Some 0,
          result_duration = None\<rparr>"
  have "\<exists>x. fst (POST_video ?e ?req empty_world) = Success 201 x"
    by (simp add: POST_video_def upload_by_u1_def mp4_file_def cloud_ok_def empty_world_def
        title_missing_def trim_def is_ws_def ALLOWED_FORMATS_video_def MAX_FILE_SIZE_video_def
        prisma_video_create_def video_create_data_def collides_def Let_def)
  then obtain x where "fst (POST_video ?e ?req empty_world) = Success 201 x" ..
  then have p: "POST_video ?e ?req empty_world = (Success 201 x, snd (POST_video ?e ?req empty_world))"
    by (metis prod.collapse)
  have o: "upload_outcome ?e = Inr ?r" by (simp add: cloud_ok_def)
  have f: "form_file ?req = Some (mp4_file 1000)" by (simp add: upload_by_u1_def)
  have b: "bytes ?r = Some 0" by simp
  have d: "form_description ?req = Some ''  ''" by (simp add: upload_by_u1_def)
  have t: "trim ''  '' = []" by (simp add: trim_def is_ws_def)
  have s: "file_size (mp4_file 1000) = 1000" by (simp add: mp4_file_def)
  note th = zero_bytes_and_blank_description_fall_back [OF p o f]
  from th b s have 1: "\<exists>v. videos (snd (POST_video ?e ?req empty_world)) = videos empty_world @ [v]
          \<and> compressedSize v = 1000" by simp
  from th d t have 2: "\<exists>v. videos (snd (POST_video ?e ?req empty_world)) = videos empty_world @ [v]
          \<and> description v = None" by blast
  from th t have 3: "data_description (image_create_data ''demo'' (Some ''  '') png_file
        \<lparr>public_id = ''images/u1/123-abc'', secure_url = ''https://cdn/x'', bytes = None,
          result_duration = None\<rparr>) = None" by blast
  from b d t 1 2 3 show ?thesis by blast
qed

subsection \<open>Listing\<close>

lemma listByOwner_set: "set (listByOwner u table) = {r \<in> set table. userId r = u}"
  by (simp add: listByOwner_def)

lemma listByOwner_sorted:
  "sorted_wrt (\<lambda>a b. createdAt b \<le> createdAt a) (listByOwner u table)"
proof -
  have "sorted (map createdAt (sort_key createdAt (filter (\<lambda>r. userId r = u) table)))"
    by (rule sorted_sort_key)
  then have "sorted_wrt (\<lambda>a b. createdAt a \<le> createdAt b)
      (sort_key createdAt (filter (\<lambda>r. userId r = u) table))"
    by (simp add: sorted_map)
  then show ?thesis
    by (simp add: listByOwner_def sorted_wrt_rev)
qed

text \<open>
  C8.  For every owner and either table, the listing holds exactly the rows of the table
  whose owner is the queried one, so never a row of another owner, whatever mixture of
  owners the table has; and the rows come newest first by \<^verbatim>\<open>createdAt\<close>.
\<close>

theorem listing_is_owner_scoped_and_newest_first:
  "(\<forall>r \<in> set (listByOwner u (videos w)). userId r = u)
   \<and> (\<forall>r \<in> set (listByOwner u (images w)). userId r = u)
   \<and> set (listByOwner u (videos w)) = {r \<in> set (videos w). userId r = u}
   \<and> set (listByOwner u (images w)) = {r \<in> set (images w). userId r = u}
   \<and> sorted_wrt (\<lambda>a b. createdAt b \<le> createdAt a) (listByOwner u (videos w))
   \<and> sorted_wrt (\<lambda>a b. createdAt b \<le> createdAt a) (listByOwner u (images w))"
  by (simp add: listByOwner_set listByOwner_sorted)

theorem listing_is_owner_scoped_and_newest_first_witness:
  "map id' (listByOwner ''u1'' (videos u1_world)) = [''v3'', ''v1'']
   \<and> map userId (listByOwner ''u1'' (videos u1_world)) = [''u1'', ''u1'']
   \<and> map id' (listByOwner ''u2'' (images u1_world)) = [''i2'']
   \<and> set (listByOwner ''u1'' (videos u1_world))
       = {video_row_of ''v1'' ''u1'' 1, video_row_of ''v3'' ''u1'' 3}
   \<and> sorted_wrt (\<lambda>a b. createdAt b \<le> createdAt a) (listByOwner ''u1'' (videos u1_world))"
proof -
  have 1: "map id' (listByOwner ''u1'' (videos u1_world)) = [''v3'', ''v1'']"
    by (simp add: listByOwner_def u1_world_def video_row_of_def)
  have 2: "map id' (listByOwner ''u2'' (images u1_world)) = [''i2'']"
    by (simp add: listByOwner_def u1_world_def row_of_def)
  have 3: "map userId (listByOwner ''u1'' (videos u1_world)) = [''u1'', ''u1'']"
    by (simp add: listByOwner_def u1_world_def video_row_of_def)
  have 4: "{r \<in> set (videos u1_world). userId r = ''u1''}
      = {video_row_of ''v1'' ''u1'' 1, video_row_of ''v3'' ''u1'' 3}"
    by (auto simp: u1_world_def video_row_of_def)
  from listing_is_owner_scoped_and_newest_first [of "''u1''" u1_world] 1 2 3 4
  show ?thesis by simp
qed

subsection \<open>The owner of an uploaded image\<close>

lemma decimal_123: "decimal 123 = ''123''"
  by code_simp

lemma image_upload_never_stores:
  "images (snd (POST_image e req w)) = images w \<and> (\<exists>s b. fst (POST_image e req w) = Failure s b)"
  using POST_image_effects [of e req w] by blast

text \<open>
  C1.  The video handler gives the caller as \<^verbatim>\<open>userId\<close> to the store (lemma
  \<open>video_upload_sets_owner\<close>).  The image handler does not: for the valid request of
  user u1 with a 1000-byte image/png titled holiday, which Cloudinary accepts, the
  \<^verbatim>\<open>data\<close> object has no \<^verbatim>\<open>userId\<close>, the store rejects the create, the answer
  is 500 and the table stays empty.
\<close>

theorem image_upload_omits_owner:
  "data_userId (image_create_data ''holiday'' (Some ''  '') png_file
      \<lparr>public_id = ''images/u1/123-abc'', secure_url = ''https://cdn/x'', bytes = None,
        result_duration = None\<rparr>) = None
   \<and> POST_image (cloud_ok ''images/u1/123-abc'' None None) (upload_by_u1 png_file ''holiday'')
        empty_world
     = (Failure 500 InternalServerError,
        \<lparr>videos = [], images = [],
         calls = [CloudinaryUpload image ''images/u1/123-abc'', PrismaCreate image]\<rparr>)"
  by (simp add: POST_image_def upload_by_u1_def png_file_def cloud_ok_def empty_world_def
      title_missing_def trim_def is_ws_def ALLOWED_FORMATS_image_def MAX_FILE_SIZE_image_def
      prisma_image_create_def image_create_data_def catch_upload_def missing_argument_def
      decimal_123 Let_def)

end
